theory Spec2Isabelle
  imports Complex_Main
begin

section \<open>JavaScript numbers and strings\<close>

text \<open>
  The chart code computes with JavaScript numbers. They are modelled by exact reals:
  \<open>Math.round\<close> rounds half up, \<open>Math.ceil\<close> is the ceiling, and \<open>%\<close> is the
  remainder that takes the sign of the dividend. Where the source can produce \<open>NaN\<close>
  the model says so with \<open>None\<close> of type \<open>num\<close>; floating-point rounding error is not
  modelled.
\<close>

type_synonym num = "real option"

definition Math_round :: "real \<Rightarrow> int" where
  "Math_round v = \<lfloor>v + 1 / 2\<rfloor>"

definition Math_ceil :: "real \<Rightarrow> int" where
  "Math_ceil v = \<lceil>v\<rceil>"

definition js_trunc :: "real \<Rightarrow> int" where
  "js_trunc v = (if v < 0 then \<lceil>v\<rceil> else \<lfloor>v\<rfloor>)"

definition js_rem :: "real \<Rightarrow> real \<Rightarrow> real" where
  \<comment> \<open>\<open>a % b\<close> for a non-zero divisor\<close>
  "js_rem a b = a - b * of_int (js_trunc (a / b))"

subsection \<open>Hexadecimal digits\<close>

definition hexDigitTable :: "(char \<times> nat) list" where
  "hexDigitTable =
    [(CHR ''0'', 0), (CHR ''1'', 1), (CHR ''2'', 2), (CHR ''3'', 3), (CHR ''4'', 4),
     (CHR ''5'', 5), (CHR ''6'', 6), (CHR ''7'', 7), (CHR ''8'', 8), (CHR ''9'', 9),
     (CHR ''a'', 10), (CHR ''b'', 11), (CHR ''c'', 12), (CHR ''d'', 13), (CHR ''e'', 14),
     (CHR ''f'', 15),
     (CHR ''A'', 10), (CHR ''B'', 11), (CHR ''C'', 12), (CHR ''D'', 13), (CHR ''E'', 14),
     (CHR ''F'', 15)]"

definition digitValue :: "char \<Rightarrow> nat option" where
  "digitValue c = map_of hexDigitTable c"

definition isHexDigit :: "char \<Rightarrow> bool" where
  "isHexDigit c \<longleftrightarrow> digitValue c \<noteq> None"

definition isLowerHexDigit :: "char \<Rightarrow> bool" where
  "isLowerHexDigit c \<longleftrightarrow> c \<in> set ''0123456789abcdef''"

definition hexDigitChar :: "nat \<Rightarrow> char" where
  \<comment> \<open>the digit \<open>Number.prototype.toString(16)\<close> prints for a value below 16\<close>
  "hexDigitChar d = ''0123456789abcdef'' ! d"

subsection \<open>\<open>parseInt(s, 16)\<close>\<close>

definition isWhiteSpace :: "char \<Rightarrow> bool" where
  \<comment> \<open>the ASCII members of the white space that \<open>parseInt\<close> skips\<close>
  "isWhiteSpace c \<longleftrightarrow> c \<in> set [CHR 0x09, CHR 0x0A, CHR 0x0B, CHR 0x0C, CHR 0x0D, CHR '' '']"

definition stripSign :: "string \<Rightarrow> int \<times> string" where
  "stripSign t =
    (case t of
       [] \<Rightarrow> (1, t)
     | c # rest \<Rightarrow>
         if c = CHR ''-'' then (- 1, rest)
         else if c = CHR ''+'' then (1, rest)
         else (1, t))"

definition stripHexPrefix :: "string \<Rightarrow> string" where
  "stripHexPrefix u =
    (case u of
       a # b # rest \<Rightarrow>
         if a = CHR ''0'' \<and> (b = CHR ''x'' \<or> b = CHR ''X'') then rest else u
     | _ \<Rightarrow> u)"

definition hexValue :: "string \<Rightarrow> nat" where
  "hexValue z = foldl (\<lambda>acc c. 16 * acc + the (digitValue c)) 0 z"

definition parseInt16 :: "string \<Rightarrow> int option" where
  \<comment> \<open>\<open>None\<close> is \<open>NaN\<close>: no digit after white space, sign and \<open>0x\<close>\<close>
  "parseInt16 s =
    (let (sgn, u) = stripSign (dropWhile isWhiteSpace s);
         z = takeWhile isHexDigit (stripHexPrefix u)
     in if z = [] then None else Some (sgn * int (hexValue z)))"

definition substring :: "nat \<Rightarrow> nat \<Rightarrow> string \<Rightarrow> string" where
  \<comment> \<open>\<open>s.substring(a, b)\<close> for \<open>a \<le> b\<close>\<close>
  "substring a b s = take (b - a) (drop a s)"

subsection \<open>\<open>toString(16)\<close> and \<open>padStart(2, '0')\<close>\<close>

fun natToHex :: "nat \<Rightarrow> string" where
  "natToHex n = (if n < 16 then [hexDigitChar n] else natToHex (n div 16) @ [hexDigitChar (n mod 16)])"

declare natToHex.simps [simp del]

definition intToHex :: "int \<Rightarrow> string" where
  "intToHex k = (if k < 0 then CHR ''-'' # natToHex (nat (- k)) else natToHex (nat k))"

definition toString16 :: "int option \<Rightarrow> string" where
  "toString16 v = (case v of None \<Rightarrow> ''NaN'' | Some k \<Rightarrow> intToHex k)"

definition padStart2 :: "string \<Rightarrow> string" where
  "padStart2 s = replicate (2 - length s) (CHR ''0'') @ s"

section \<open>Colour palette\<close>

subsection \<open>Hex and RGB\<close>

definition hexToRgb :: "string \<Rightarrow> num \<times> num \<times> num" where
  "hexToRgb hex =
    (let h = remove1 (CHR ''#'') hex
     in (map_option of_int (parseInt16 (substring 0 2 h)),
         map_option of_int (parseInt16 (substring 2 4 h)),
         map_option of_int (parseInt16 (substring 4 6 h))))"

definition clampToHex :: "num \<Rightarrow> string" where
  \<comment> \<open>the \<open>toHex\<close> of \<open>rgbToHex\<close>: clamp to 0..255, round, print in base 16, pad\<close>
  "clampToHex v =
    padStart2 (toString16 (map_option (\<lambda>x. Math_round (max 0 (min 255 x))) v))"

definition rgbToHex :: "num \<Rightarrow> num \<Rightarrow> num \<Rightarrow> string" where
  "rgbToHex r g b = CHR ''#'' # clampToHex r @ clampToHex g @ clampToHex b"

definition mixChannel :: "num \<Rightarrow> num \<Rightarrow> real \<Rightarrow> num" where
  \<comment> \<open>\<open>b * inv + f * ratio\<close>; \<open>NaN\<close> in either channel gives \<open>NaN\<close>\<close>
  "mixChannel b f ratio =
    (case (b, f) of
       (Some bv, Some fv) \<Rightarrow> (let inv = 1 - ratio in Some (bv * inv + fv * ratio))
     | _ \<Rightarrow> None)"

definition mixHexColors :: "string \<Rightarrow> string \<Rightarrow> real \<Rightarrow> string" where
  "mixHexColors bgHex fgHex ratio =
    (let (br, bg, bb) = hexToRgb bgHex;
         (fr, fg, fb) = hexToRgb fgHex
     in rgbToHex (mixChannel br fr ratio) (mixChannel bg fg ratio) (mixChannel bb fb ratio))"

subsection \<open>Hex and HSL\<close>

text \<open>
  The saturation that \<open>hexToHsl\<close> returns is the one value of this module that can be
  \<open>+Infinity\<close>: a digit pair with a sign (\<open>parseInt('-f', 16)\<close> is \<open>-15\<close>) can make
  \<open>max + min\<close> zero while \<open>max \<noteq> min\<close>. It has a type of its own.
\<close>

datatype xnum = Fin real | PosInf | NotNum

definition hexToHsl :: "string \<Rightarrow> num \<times> xnum \<times> num" where
  "hexToHsl hex =
    (let h = remove1 (CHR ''#'') hex
     in case (parseInt16 (substring 0 2 h), parseInt16 (substring 2 4 h),
              parseInt16 (substring 4 6 h)) of
          (Some rp, Some gp, Some bp) \<Rightarrow>
            (let ri = real_of_int rp / 255;
                 gi = real_of_int gp / 255;
                 bi = real_of_int bp / 255;
                 mx = max ri (max gi bi);
                 mn = min ri (min gi bi);
                 l = (mx + mn) / 2
             in if mx = mn then (Some 0, Fin 0, Some (l * 100))
                else
                  (let d = mx - mn;
                       s = (if l > 1 / 2 then Fin (d / (2 - mx - mn) * 100)
                            else if mx + mn = 0 then PosInf
                            else Fin (d / (mx + mn) * 100));
                       hue = (if mx = ri then ((gi - bi) / d + (if gi < bi then 6 else 0)) / 6
                              else if mx = gi then ((bi - ri) / d + 2) / 6
                              else ((ri - gi) / d + 4) / 6)
                   in (Some (hue * 360), s, Some (l * 100))))
        | _ \<Rightarrow> (None, NotNum, None))"

definition hslToHex :: "num \<Rightarrow> num \<Rightarrow> real \<Rightarrow> string" where
  "hslToHex h s l =
    (let li = l / 100;
         c = map_option (\<lambda>sv. (1 - \<bar>2 * li - 1\<bar>) * (sv / 100)) s;
         x = (case (c, h) of
                (Some cv, Some hv) \<Rightarrow> Some (cv * (1 - \<bar>js_rem (hv / 60) 2 - 1\<bar>))
              | _ \<Rightarrow> None);
         m = map_option (\<lambda>cv. li - cv / 2) c;
         (r, g, b) =
           (case h of
              Some hv \<Rightarrow>
                if hv < 60 then (c, x, Some 0)
                else if hv < 120 then (x, c, Some 0)
                else if hv < 180 then (Some 0, c, x)
                else if hv < 240 then (Some 0, x, c)
                else if hv < 300 then (x, Some 0, c)
                else (c, Some 0, x)
            | None \<Rightarrow> (c, Some 0, x));
         toHex = (\<lambda>v. padStart2 (toString16
                   (case (v, m) of
                      (Some vv, Some mv) \<Rightarrow> Some (Math_round ((vv + mv) * 255))
                    | _ \<Rightarrow> None)))
     in CHR ''#'' # toHex r @ toHex g @ toHex b)"

subsection \<open>Public API\<close>

definition isDarkBackground :: "string \<Rightarrow> bool" where
  "isDarkBackground bgHex =
    (case hexToHsl bgHex of (_, _, Some l) \<Rightarrow> l < 50 | _ \<Rightarrow> False)"

definition clampSaturation :: "xnum \<Rightarrow> num" where
  \<comment> \<open>\<open>Math.max(55, Math.min(85, s))\<close>\<close>
  "clampSaturation s =
    (case s of Fin v \<Rightarrow> Some (max 55 (min 85 v)) | PosInf \<Rightarrow> Some 85 | NotNum \<Rightarrow> None)"

definition seriesHsl :: "real \<Rightarrow> string \<Rightarrow> string option \<Rightarrow> num \<times> num \<times> real" where
  \<comment> \<open>the hue, saturation and lightness that \<open>getSeriesColor\<close> hands to \<open>hslToHex\<close>;
      an absent or empty \<open>bgColor\<close> is falsy\<close>
  "seriesHsl index accentColor bgColor =
    (let (h, s, _) = hexToHsl accentColor;
         chartS = clampSaturation s;
         tier = Math_ceil (index / 2);
         oddIndex = (js_rem index 2 = 1);
         dark = (if (case bgColor of None \<Rightarrow> False | Some bg \<Rightarrow> bg \<noteq> [] \<and> isDarkBackground bg)
                 then \<not> oddIndex else oddIndex);
         l = (if dark then max 25 (48 - real_of_int tier * 13)
              else min 78 (55 + real_of_int tier * 11));
         hShift = (if dark then - 8 else 12) * real_of_int tier;
         newH = map_option (\<lambda>hv. js_rem (js_rem (hv + hShift) 360 + 360) 360) h
     in (newH, chartS, l))"

definition getSeriesColor :: "real \<Rightarrow> string \<Rightarrow> string option \<Rightarrow> string" where
  "getSeriesColor index accentColor bgColor =
    (if index = 0 then accentColor
     else (case seriesHsl index accentColor bgColor of (newH, chartS, l) \<Rightarrow> hslToHex newH chartS l))"

subsection \<open>Well-formed colour strings\<close>

definition isHexColor :: "string \<Rightarrow> bool" where
  \<comment> \<open>\<open>#\<close> and six hexadecimal digits of either case\<close>
  "isHexColor s \<longleftrightarrow>
    (case s of [] \<Rightarrow> False | c # ds \<Rightarrow> c = CHR ''#'' \<and> length ds = 6 \<and> list_all isHexDigit ds)"

definition isLowerHexColor :: "string \<Rightarrow> bool" where
  "isLowerHexColor s \<longleftrightarrow>
    (case s of [] \<Rightarrow> False | c # ds \<Rightarrow> c = CHR ''#'' \<and> length ds = 6 \<and> list_all isLowerHexDigit ds)"

definition channelOf :: "string \<Rightarrow> nat \<Rightarrow> nat" where
  \<comment> \<open>the value of digit pair \<open>k\<close> (0, 1, 2) of a well-formed colour string\<close>
  "channelOf s k = 16 * the (digitValue (s ! (1 + 2 * k))) + the (digitValue (s ! (2 + 2 * k)))"

definition hexPair :: "int \<Rightarrow> string" where
  \<comment> \<open>two lower-case digits for a value in 0..255\<close>
  "hexPair v = [hexDigitChar (nat v div 16), hexDigitChar (nat v mod 16)]"


definition mixClamped :: "string \<Rightarrow> string \<Rightarrow> real \<Rightarrow> nat \<Rightarrow> int" where
  "mixClamped bg fg ratio k =
    Math_round (max 0 (min 255 (real (channelOf bg k) * (1 - ratio) + real (channelOf fg k) * ratio)))"

definition canonicalHex :: "string \<Rightarrow> string" where
  \<comment> \<open>a well-formed colour string respelled with lower-case digits\<close>
  "canonicalHex s =
    CHR ''#'' # hexPair (int (channelOf s 0)) @ hexPair (int (channelOf s 1))
      @ hexPair (int (channelOf s 2))"

section \<open>Chart renderer\<close>

subsection \<open>Coordinates as text\<close>

fun natToDec :: "nat \<Rightarrow> string" where
  "natToDec n =
    (if n < 10 then [''0123456789'' ! n] else natToDec (n div 10) @ [''0123456789'' ! (n mod 10)])"

declare natToDec.simps [simp del]

definition r1 :: "real \<Rightarrow> string" where
  \<comment> \<open>the source's \<open>r\<close>: \<open>String(Math.round(n * 10) / 10)\<close>, a number of tenths printed
      in positional notation (what \<open>String\<close> prints below \<open>1e21\<close>); minus zero prints as 0\<close>
  "r1 n =
    (let k = Math_round (n * 10);
         a = nat \<bar>k\<bar>;
         body = natToDec (a div 10) @ (if a mod 10 = 0 then [] else CHR ''.'' # natToDec (a mod 10))
     in if k < 0 then CHR ''-'' # body else body)"

definition isCoordChar :: "char \<Rightarrow> bool" where
  \<comment> \<open>the characters \<open>r1\<close> prints\<close>
  "isCoordChar c \<longleftrightarrow> c \<in> set ''0123456789-.''"

fun joinWith :: "string \<Rightarrow> string list \<Rightarrow> string" where
  "joinWith sep [] = []"
| "joinWith sep [a] = a"
| "joinWith sep (a # b # rest) = a @ sep @ joinWith sep (b # rest)"

subsection \<open>Bar paths\<close>

definition roundedTopBarPath :: "real \<Rightarrow> real \<Rightarrow> real \<Rightarrow> real \<Rightarrow> real \<Rightarrow> string" where
  "roundedTopBarPath x y w h radius =
    (let rr = min radius (min (w / 2) (h / 2))
     in if rr \<le> 0
        then ''M'' @ r1 x @ '','' @ r1 y @ '' h'' @ r1 w @ '' v'' @ r1 h @ '' h'' @ r1 (- w) @ '' Z''
        else joinWith '' ''
          [''M'' @ r1 x @ '','' @ r1 (y + rr),
           ''Q'' @ r1 x @ '','' @ r1 y @ '' '' @ r1 (x + rr) @ '','' @ r1 y,
           ''L'' @ r1 (x + w - rr) @ '','' @ r1 y,
           ''Q'' @ r1 (x + w) @ '','' @ r1 y @ '' '' @ r1 (x + w) @ '','' @ r1 (y + rr),
           ''L'' @ r1 (x + w) @ '','' @ r1 (y + h - rr),
           ''Q'' @ r1 (x + w) @ '','' @ r1 (y + h) @ '' '' @ r1 (x + w - rr) @ '','' @ r1 (y + h),
           ''L'' @ r1 (x + rr) @ '','' @ r1 (y + h),
           ''Q'' @ r1 x @ '','' @ r1 (y + h) @ '' '' @ r1 x @ '','' @ r1 (y + h - rr),
           ''Z''])"

definition roundedRightBarPath :: "real \<Rightarrow> real \<Rightarrow> real \<Rightarrow> real \<Rightarrow> real \<Rightarrow> string" where
  "roundedRightBarPath x y w h radius =
    (let rr = min radius (min (w / 2) (h / 2))
     in if rr \<le> 0
        then ''M'' @ r1 x @ '','' @ r1 y @ '' h'' @ r1 w @ '' v'' @ r1 h @ '' h'' @ r1 (- w) @ '' Z''
        else joinWith '' ''
          [''M'' @ r1 (x + rr) @ '','' @ r1 y,
           ''L'' @ r1 (x + w - rr) @ '','' @ r1 y,
           ''Q'' @ r1 (x + w) @ '','' @ r1 y @ '' '' @ r1 (x + w) @ '','' @ r1 (y + rr),
           ''L'' @ r1 (x + w) @ '','' @ r1 (y + h - rr),
           ''Q'' @ r1 (x + w) @ '','' @ r1 (y + h) @ '' '' @ r1 (x + w - rr) @ '','' @ r1 (y + h),
           ''L'' @ r1 (x + rr) @ '','' @ r1 (y + h),
           ''Q'' @ r1 x @ '','' @ r1 (y + h) @ '' '' @ r1 x @ '','' @ r1 (y + h - rr),
           ''L'' @ r1 x @ '','' @ r1 (y + rr),
           ''Q'' @ r1 x @ '','' @ r1 y @ '' '' @ r1 (x + rr) @ '','' @ r1 y,
           ''Z''])"

definition rectanglePath :: "real \<Rightarrow> real \<Rightarrow> real \<Rightarrow> real \<Rightarrow> string" where
  \<comment> \<open>the four-command rectangle \<open>M x,y h w v h h -w Z\<close> of the specification\<close>
  "rectanglePath x y w h =
    joinWith '' '' [''M'' @ r1 x @ '','' @ r1 y, ''h'' @ r1 w, ''v'' @ r1 h, ''h'' @ r1 (- w), ''Z'']"

subsection \<open>Natural cubic spline\<close>

text \<open>
  A point is a pair \<open>(x, y)\<close>. The arrays \<open>h\<close>, \<open>delta\<close>, \<open>cp\<close>, \<open>dp\<close>, \<open>c\<close> and
  \<open>slopes\<close> of the source are lists, written by index as the loops write them. The
  model is exact arithmetic: where the source would divide by zero (three points in a
  row on one x, for one) its coordinates are \<open>NaN\<close> or infinite and the model's are
  not, while the commands of the path are the same.
\<close>

type_synonym point = "real \<times> real"

definition intervalWidths :: "point list \<Rightarrow> real list" where
  "intervalWidths points = map (\<lambda>i. fst (points ! (i + 1)) - fst (points ! i)) [0..<length points - 1]"

definition secantSlopes :: "point list \<Rightarrow> real list" where
  "secantSlopes points =
    (let h = intervalWidths points
     in map (\<lambda>i. if h ! i = 0 then 0 else (snd (points ! (i + 1)) - snd (points ! i)) / h ! i)
          [0..<length points - 1])"

definition forwardStep ::
  "real list \<Rightarrow> real list \<Rightarrow> nat \<Rightarrow> real list \<times> real list \<Rightarrow> real list \<times> real list" where
  "forwardStep h delta i st =
    (case st of (cp, dp) \<Rightarrow>
      (let diag = 2 * (h ! (i - 1) + h ! i);
           rhs = 3 * (delta ! i - delta ! (i - 1))
       in if i = 1 then (cp[i := h ! i / diag], dp[i := rhs / diag])
          else
            (let w = diag - h ! (i - 1) * cp ! (i - 1)
             in (cp[i := h ! i / w], dp[i := (rhs - h ! (i - 1) * dp ! (i - 1)) / w]))))"

definition secondDerivatives :: "point list \<Rightarrow> real list" where
  \<comment> \<open>the array \<open>c\<close>: forward elimination for \<open>i = 1 .. n - 2\<close>, then back substitution
      for \<open>i = n - 2\<close> down to 1\<close>
  "secondDerivatives points =
    (let n = length points;
         h = intervalWidths points;
         delta = secantSlopes points;
         (cp, dp) = fold (forwardStep h delta) [1..<n - 1] (replicate n 0, replicate n 0)
     in fold (\<lambda>i c. c[i := dp ! i - cp ! i * c ! (i + 1)]) (rev [1..<n - 1]) (replicate n 0))"

definition knotSlopes :: "point list \<Rightarrow> real list" where
  \<comment> \<open>the array \<open>slopes\<close>\<close>
  "knotSlopes points =
    (let n = length points;
         h = intervalWidths points;
         delta = secantSlopes points;
         c = secondDerivatives points;
         slopes = fold (\<lambda>i s. s[i := delta ! i - h ! i * (2 * c ! i + c ! (i + 1)) / 3])
                    [0..<n - 1] (replicate n 0)
     in slopes[n - 1 := delta ! (n - 2) + h ! (n - 2) * c ! (n - 2) / 3])"

definition bezierSegments :: "point list \<Rightarrow> (point \<times> point \<times> point) list" where
  \<comment> \<open>per interval: first control point, second control point, end point\<close>
  "bezierSegments points =
    (let h = intervalWidths points;
         slopes = knotSlopes points
     in map (\<lambda>i.
          (let seg = h ! i / 3;
               cp1x = fst (points ! i) + seg;
               cp1y = snd (points ! i) + slopes ! i * seg;
               cp2x = fst (points ! (i + 1)) - seg;
               cp2y = snd (points ! (i + 1)) - slopes ! (i + 1) * seg
           in ((cp1x, cp1y), (cp2x, cp2y), points ! (i + 1))))
        [0..<length points - 1])"

definition moveTo :: "point \<Rightarrow> string" where
  "moveTo p = ''M'' @ r1 (fst p) @ '','' @ r1 (snd p)"

definition cubicCommand :: "point \<times> point \<times> point \<Rightarrow> string" where
  "cubicCommand sg =
    (case sg of ((cp1x, cp1y), (cp2x, cp2y), (ex, ey)) \<Rightarrow>
      '' C'' @ r1 cp1x @ '','' @ r1 cp1y @ '' '' @ r1 cp2x @ '','' @ r1 cp2y
        @ '' '' @ r1 ex @ '','' @ r1 ey)"

definition smoothCurvePath :: "point list \<Rightarrow> string" where
  "smoothCurvePath points =
    (case points of
       [] \<Rightarrow> []
     | [p] \<Rightarrow> moveTo p
     | [p, q] \<Rightarrow> moveTo p @ '' L'' @ r1 (fst q) @ '','' @ r1 (snd q)
     | _ \<Rightarrow> foldl (\<lambda>path sg. path @ cubicCommand sg) (moveTo (points ! 0)) (bezierSegments points))"

text \<open>
  Reading the path back as curves: a cubic command starts at the current point (the
  move-to point, then the end point of the command before) and has the Bernstein form.
\<close>

fun pathCurves :: "point \<Rightarrow> (point \<times> point \<times> point) list \<Rightarrow> (point \<times> point \<times> point \<times> point) list" where
  "pathCurves cur [] = []"
| "pathCurves cur ((c1, c2, e) # rest) = (cur, c1, c2, e) # pathCurves e rest"

definition bezier :: "real \<Rightarrow> real \<Rightarrow> real \<Rightarrow> real \<Rightarrow> real \<Rightarrow> real" where
  "bezier p0 p1 p2 p3 t =
    (1 - t) ^ 3 * p0 + 3 * (1 - t) ^ 2 * t * p1 + 3 * (1 - t) * t ^ 2 * p2 + t ^ 3 * p3"

definition bezierDeriv :: "real \<Rightarrow> real \<Rightarrow> real \<Rightarrow> real \<Rightarrow> real \<Rightarrow> real" where
  "bezierDeriv p0 p1 p2 p3 t =
    3 * (1 - t) ^ 2 * (p1 - p0) + 6 * (1 - t) * t * (p2 - p1) + 3 * t ^ 2 * (p3 - p2)"

definition curveX :: "point \<times> point \<times> point \<times> point \<Rightarrow> real \<Rightarrow> real" where
  "curveX cv t = (case cv of (p0, p1, p2, p3) \<Rightarrow> bezier (fst p0) (fst p1) (fst p2) (fst p3) t)"

definition curveY :: "point \<times> point \<times> point \<times> point \<Rightarrow> real \<Rightarrow> real" where
  "curveY cv t = (case cv of (p0, p1, p2, p3) \<Rightarrow> bezier (snd p0) (snd p1) (snd p2) (snd p3) t)"

definition curveDx :: "point \<times> point \<times> point \<times> point \<Rightarrow> real \<Rightarrow> real" where
  "curveDx cv t = (case cv of (p0, p1, p2, p3) \<Rightarrow> bezierDeriv (fst p0) (fst p1) (fst p2) (fst p3) t)"

definition curveDy :: "point \<times> point \<times> point \<times> point \<Rightarrow> real \<Rightarrow> real" where
  "curveDy cv t = (case cv of (p0, p1, p2, p3) \<Rightarrow> bezierDeriv (snd p0) (snd p1) (snd p2) (snd p3) t)"

subsection \<open>The positioned chart\<close>


record Tick =
  tick_x :: real
  tick_y :: real
  tick_label :: string
  tick_labelX :: real
  tick_labelY :: real
  tick_textAnchor :: string

record AxisTitle =
  at_text :: string
  at_x :: real
  at_y :: real
  at_rotate :: "real option"



record Bar =
  bar_x :: real
  bar_y :: real
  bar_width :: real
  bar_height :: real
  bar_value :: real
  bar_label :: "string option"
  bar_colorIndex :: nat

record LinePoint =
  lp_x :: real
  lp_y :: real
  lp_value :: real
  lp_label :: "string option"

record Line =
  ln_seriesIndex :: nat
  ln_colorIndex :: nat
  ln_points :: "LinePoint list"

datatype LegendType = LegendBar | LegendLine

record LegendItem =
  li_type :: LegendType
  li_seriesIndex :: nat
  li_colorIndex :: nat
  li_label :: string
  li_x :: real
  li_y :: real

record ChartTitle =
  ct_text :: string
  ct_x :: real
  ct_y :: real


subsection \<open>Dot grid\<close>

















fun walk :: "nat \<Rightarrow> real \<Rightarrow> real \<Rightarrow> real \<Rightarrow> real list option" where
  \<comment> \<open>the values of \<open>v\<close> in \<open>for (v = start; v <= limit; v += gap)\<close>\<close>
  "walk 0 v limit gap = None"
| "walk (Suc fuel) v limit gap =
    (if v \<le> limit then map_option ((#) v) (walk fuel (v + gap) limit gap) else Some [])"







subsection \<open>Escaping text\<close>

definition replaceAll :: "char \<Rightarrow> string \<Rightarrow> string \<Rightarrow> string" where
  \<comment> \<open>\<open>text.replace(/c/g, rep)\<close> for a single character \<open>c\<close>\<close>
  "replaceAll c rep text = concat (map (\<lambda>x. if x = c then rep else [x]) text)"

definition escapeXml :: "string \<Rightarrow> string" where
  "escapeXml text =
    replaceAll (CHR 0x22) ''&quot;''
      (replaceAll (CHR ''>'') ''&gt;''
        (replaceAll (CHR ''<'') ''&lt;''
          (replaceAll (CHR ''&'') ''&amp;'' text)))"

definition escapeChar :: "char \<Rightarrow> string" where
  \<comment> \<open>the entity of one character, as the specification words the escaping\<close>
  "escapeChar c =
    (if c = CHR ''&'' then ''&amp;''
     else if c = CHR ''<'' then ''&lt;''
     else if c = CHR ''>'' then ''&gt;''
     else if c = CHR 0x22 then ''&quot;''
     else [c])"

fun escapedText :: "string \<Rightarrow> bool" where
  \<comment> \<open>no \<open><\<close>, \<open>>\<close> or double quote, and every \<open>&\<close> starts one of the four entities\<close>
  "escapedText [] = True"
| "escapedText (c # cs) =
    ((if c = CHR ''&''
      then take 4 cs = ''amp;'' \<or> take 3 cs = ''lt;'' \<or> take 3 cs = ''gt;'' \<or> take 5 cs = ''quot;''
      else c \<noteq> CHR ''<'' \<and> c \<noteq> CHR ''>'' \<and> c \<noteq> CHR 0x22)
     \<and> escapedText cs)"

fun unescapeXml :: "string \<Rightarrow> string" where
  \<comment> \<open>reading the four entities back\<close>
  "unescapeXml [] = []"
| "unescapeXml (c # cs) =
    (if c = CHR ''&'' \<and> take 4 cs = ''amp;'' then CHR ''&'' # unescapeXml (drop 4 cs)
     else if c = CHR ''&'' \<and> take 3 cs = ''lt;'' then CHR ''<'' # unescapeXml (drop 3 cs)
     else if c = CHR ''&'' \<and> take 3 cs = ''gt;'' then CHR ''>'' # unescapeXml (drop 3 cs)
     else if c = CHR ''&'' \<and> take 5 cs = ''quot;'' then CHR 0x22 # unescapeXml (drop 5 cs)
     else c # unescapeXml cs)"

definition markup :: "string \<Rightarrow> nat \<times> nat \<times> nat" where
  \<comment> \<open>how many \<open><\<close>, \<open>>\<close> and double quotes a piece of markup has\<close>
  "markup s = (count_list s (CHR ''<''), count_list s (CHR ''>''), count_list s (CHR 0x22))"

subsection \<open>Markup fragments\<close>

text \<open>
  The template literals of \<open>renderXYChartSvg\<close> and of the tooltip functions that hold
  text of the chart. What they take from outside this file is a parameter:
  \<open>str\<close> is JavaScript's conversion of a number to a string (\<open>${bar.value}\<close>),
  \<open>shift\<close> the constant \<open>TEXT_BASELINE_SHIFT\<close> and \<open>etw\<close> the function
  \<open>estimateTextWidth\<close> of \<open>styles.ts\<close>. The constants of \<open>CHART_FONT\<close> and
  \<open>TIP\<close> are written out. An optional string is truthy when present and not empty.
\<close>

definition truthy :: "string option \<Rightarrow> bool" where
  "truthy l \<longleftrightarrow> (case l of None \<Rightarrow> False | Some v \<Rightarrow> v \<noteq> [])"

definition orEmpty :: "string option \<Rightarrow> string" where
  \<comment> \<open>\<open>label || ''\<close>\<close>
  "orEmpty l = (case l of None \<Rightarrow> [] | Some v \<Rightarrow> v)"

fun groupThousands :: "nat \<Rightarrow> string" where
  "groupThousands n =
    (if n < 1000 then natToDec n
     else groupThousands (n div 1000) @ '','' @
          replicate (3 - length (natToDec (n mod 1000))) (CHR ''0'') @ natToDec (n mod 1000))"

declare groupThousands.simps [simp del]

definition toLocaleString :: "real \<Rightarrow> string" where
  \<comment> \<open>\<open>v.toLocaleString('en-US')\<close> for an integer \<open>v\<close>\<close>
  "toLocaleString v = (if v < 0 then ''-'' else []) @ groupThousands (nat \<lfloor>\<bar>v\<bar>\<rfloor>)"

definition toFixed :: "nat \<Rightarrow> real \<Rightarrow> string" where
  \<comment> \<open>\<open>v.toFixed(f)\<close> below \<open>1e21\<close>\<close>
  "toFixed f v =
    (let n = nat \<lfloor>\<bar>v\<bar> * 10 ^ f + 1 / 2\<rfloor>;
         m = natToDec n;
         m2 = (if f = 0 then m
               else (let p = replicate (f + 1 - length m) (CHR ''0'') @ m
                     in take (length p - f) p @ ''.'' @ drop (length p - f) p))
     in if v < 0 then ''-'' @ m2 else m2)"

definition formatTipValue :: "real \<Rightarrow> string" where
  "formatTipValue v =
    (if v = real_of_int \<lfloor>v\<rfloor> then toLocaleString v
     else toFixed (if \<bar>v\<bar> < 10 then 1 else 0) v)"

definition dataAttrs :: "(real \<Rightarrow> string) \<Rightarrow> real \<Rightarrow> string option \<Rightarrow> string" where
  \<open>dataAttrs str v label =
    '' data-value="'' @ str v @ ''"'' @
    (if truthy label then '' data-label="'' @ escapeXml (orEmpty label) @ ''"'' else [])\<close>

definition barPathElement :: "(real \<Rightarrow> string) \<Rightarrow> bool \<Rightarrow> Bar \<Rightarrow> string" where
  \<open>barPathElement str horizontal bar =
    ''<path d="'' @
    (if horizontal
     then roundedRightBarPath (bar_x bar) (bar_y bar) (bar_width bar) (bar_height bar) 8
     else roundedTopBarPath (bar_x bar) (bar_y bar) (bar_width bar) (bar_height bar) 8) @
    ''" class="xychart-bar xychart-color-'' @ natToDec (bar_colorIndex bar) @ ''"'' @
    dataAttrs str (bar_value bar) (bar_label bar) @ ''/>''\<close>

definition tipPointer :: "real \<Rightarrow> real \<Rightarrow> string" where
  \<open>tipPointer ptrX ptrY =
    ''<polygon points="'' @ r1 (ptrX - 6) @ '','' @ r1 ptrY @ '' '' @ r1 (ptrX + 6) @ '','' @ r1 ptrY
      @ '' '' @ r1 ptrX @ '','' @ r1 (ptrY + 6) @ ''" class="xychart-tip xychart-tip-ptr"/>''\<close>

definition tooltipAbove ::
  "(string \<Rightarrow> real \<Rightarrow> real \<Rightarrow> real) \<Rightarrow> string \<Rightarrow> real \<Rightarrow> real \<Rightarrow> string \<Rightarrow> string" where
  \<open>tooltipAbove etw shift cx topY t =
    (let textW = etw t 15 500;
         bgW = textW + 14 * 2;
         tipY = max 4 (topY - 12 - 32 - 6);
         bgX = cx - bgW / 2;
         textY = tipY + 32 / 2
     in ''<rect x="'' @ r1 bgX @ ''" y="'' @ r1 tipY @ ''" width="'' @ r1 bgW
          @ ''" height="32" rx="8" class="xychart-tip xychart-tip-bg"/>''
        @ tipPointer cx (tipY + 32)
        @ ''<text x="'' @ r1 cx @ ''" y="'' @ r1 textY @ ''" text-anchor="middle" dy="'' @ shift
          @ ''" class="xychart-tip xychart-tip-text">'' @ escapeXml t @ ''</text>'')\<close>

definition tipRow :: "string \<Rightarrow> real \<Rightarrow> real \<Rightarrow> real \<Rightarrow> string \<times> string \<Rightarrow> string" where
  \<comment> \<open>the two text elements of one entry \<open>(text, legendLabel)\<close> at height \<open>textY\<close>\<close>
  \<open>tipRow shift rowLeft rowRight textY entry =
    ''<text x="'' @ r1 rowLeft @ ''" y="'' @ r1 textY
      @ ''" text-anchor="start" font-size="15" font-weight="500" dy="'' @ shift
      @ ''" class="xychart-tip xychart-tip-text">'' @ escapeXml (snd entry) @ ''</text>''
    @ ''<text x="'' @ r1 rowRight @ ''" y="'' @ r1 textY
      @ ''" text-anchor="end" font-size="15" font-weight="500" dy="'' @ shift
      @ ''" class="xychart-tip xychart-tip-text">'' @ escapeXml (fst entry) @ ''</text>''\<close>

fun tipRows :: "string \<Rightarrow> real \<Rightarrow> real \<Rightarrow> real \<Rightarrow> (string \<times> string) list \<Rightarrow> string" where
  \<comment> \<open>the loop over the entries: \<open>textY += lineH\<close>, then the row\<close>
  "tipRows shift rowLeft rowRight textY [] = []"
| "tipRows shift rowLeft rowRight textY (entry # rest) =
    tipRow shift rowLeft rowRight (textY + 20) entry @ tipRows shift rowLeft rowRight (textY + 20) rest"

definition multiTooltipAbove ::
  "(string \<Rightarrow> real \<Rightarrow> real \<Rightarrow> real) \<Rightarrow> string \<Rightarrow> real \<Rightarrow> real \<Rightarrow> string
    \<Rightarrow> (string \<times> string) list \<Rightarrow> string" where
  \<comment> \<open>an entry is \<open>(text, legendLabel)\<close>; \<open>Math.max\<close> of no row is \<open>-Infinity\<close>, which
      leaves the heading width\<close>
  \<open>multiTooltipAbove etw shift cx topY label entries =
    (let headingW = etw label 15 600;
         rowWs = map (\<lambda>e. etw (snd e) 15 500 + 10 + etw (fst e) 15 500) entries;
         bgW = foldl max headingW rowWs + 14 * 2;
         bgH = 6 + 20 + length entries * 20 + 6;
         tipY = max 4 (topY - 12 - real bgH - 6);
         bgX = cx - bgW / 2;
         textY = tipY + 6 + 20 / 2
     in ''<rect x="'' @ r1 bgX @ ''" y="'' @ r1 tipY @ ''" width="'' @ r1 bgW @ ''" height="''
          @ natToDec bgH @ ''" rx="8" class="xychart-tip xychart-tip-bg"/>''
        @ tipPointer cx (tipY + real bgH)
        @ ''<text x="'' @ r1 cx @ ''" y="'' @ r1 textY
          @ ''" text-anchor="middle" font-weight="600" font-size="15" dy="'' @ shift
          @ ''" class="xychart-tip xychart-tip-text">'' @ escapeXml label @ ''</text>''
        @ tipRows shift (bgX + 14) (bgX + bgW - 14) textY entries)\<close>

definition tipTitle :: "string option \<Rightarrow> string \<Rightarrow> string" where
  \<comment> \<open>\<open>label ? `${label}: ${tipText}` : tipText\<close>\<close>
  "tipTitle label tipText = (if truthy label then orEmpty label @ '': '' @ tipText else tipText)"

definition barOverlayGroup ::
  "(string \<Rightarrow> real \<Rightarrow> real \<Rightarrow> real) \<Rightarrow> string \<Rightarrow> Bar \<Rightarrow> string" where
  \<open>barOverlayGroup etw shift bar =
    (let tipText = formatTipValue (bar_value bar);
         tip = tooltipAbove etw shift (bar_x bar + bar_width bar / 2) (bar_y bar) tipText
     in ''<g class="xychart-bar-group">''
        @ ''<rect x="'' @ r1 (bar_x bar) @ ''" y="'' @ r1 (bar_y bar) @ ''" width="''
          @ r1 (bar_width bar) @ ''" height="'' @ r1 (bar_height bar) @ ''" fill="transparent"/>''
        @ ''<title>'' @ escapeXml (tipTitle (bar_label bar) tipText) @ ''</title>''
        @ tip @ ''</g>'')\<close>

record DotEntry =
  de_x :: real
  de_y :: real
  de_value :: real
  de_label :: "string option"
  de_seriesIndex :: nat
  de_colorIndex :: nat

definition dotCircle :: "(real \<Rightarrow> string) \<Rightarrow> DotEntry \<Rightarrow> string" where
  \<open>dotCircle str e =
    ''<circle cx="'' @ r1 (de_x e) @ ''" cy="'' @ r1 (de_y e)
      @ ''" r="5" class="xychart-dot xychart-color-'' @ natToDec (de_colorIndex e) @ ''"''
      @ dataAttrs str (de_value e) (de_label e) @ ''/>''\<close>

definition lineLegendLabel :: "LegendItem list \<Rightarrow> nat \<Rightarrow> string" where
  \<comment> \<open>\<open>lineLegendLabels.get(seriesIndex) || `Line ${seriesIndex + 1}`\<close>: the map holds,
      per series, the label of the last legend item of type \<open>line\<close>\<close>
  "lineLegendLabel legend seriesIndex =
    (case filter (\<lambda>item. li_type item = LegendLine \<and> li_seriesIndex item = seriesIndex) legend of
       [] \<Rightarrow> ''Line '' @ natToDec (seriesIndex + 1)
     | items \<Rightarrow>
         (if li_label (last items) = [] then ''Line '' @ natToDec (seriesIndex + 1)
          else li_label (last items)))"

definition dotGroupMulti ::
  "(real \<Rightarrow> string) \<Rightarrow> (string \<Rightarrow> real \<Rightarrow> real \<Rightarrow> real) \<Rightarrow> string \<Rightarrow> LegendItem list
    \<Rightarrow> DotEntry \<Rightarrow> DotEntry list \<Rightarrow> string" where
  \<comment> \<open>a column of the entries \<open>e0 # es\<close> in an interactive chart, \<open>es\<close> not empty\<close>
  \<open>dotGroupMulti str etw shift legend e0 es =
    (let entries = e0 # es;
         cx = de_x e0;
         label = orEmpty (de_label e0);
         topY = foldl min (de_y e0) (map de_y es);
         botY = foldl max (de_y e0) (map de_y es);
         hitPad = 5 * 3;
         hitArea = ''<rect x="'' @ r1 (cx - hitPad) @ ''" y="'' @ r1 (topY - hitPad) @ ''" width="''
           @ r1 (hitPad * 2) @ ''" height="'' @ r1 (botY - topY + hitPad * 2)
           @ ''" fill="transparent" class="xychart-hit"/>'';
         tipEntries = map (\<lambda>e. (formatTipValue (de_value e),
                                 lineLegendLabel legend (de_seriesIndex e))) entries;
         tip = multiTooltipAbove etw shift cx (topY - 5) label tipEntries;
         valStrs = map fst tipEntries;
         joined = joinWith [CHR '' '', CHR 0xB7, CHR '' ''] valStrs;
         titleText = (if label \<noteq> [] then label @ '': '' @ joined else joined)
     in ''<g class="xychart-dot-group">'' @ hitArea
        @ concat (map (dotCircle str) entries)
        @ ''<title>'' @ escapeXml titleText @ ''</title>'' @ tip @ ''</g>'')\<close>

definition dotGroupSingle ::
  "(real \<Rightarrow> string) \<Rightarrow> (string \<Rightarrow> real \<Rightarrow> real \<Rightarrow> real) \<Rightarrow> string \<Rightarrow> bool \<Rightarrow> DotEntry \<Rightarrow> string" where
  \<comment> \<open>a column of one entry in an interactive chart\<close>
  \<open>dotGroupSingle str etw shift sparse e =
    (let cx = de_x e;
         tipText = formatTipValue (de_value e);
         tip = tooltipAbove etw shift cx (de_y e - 5) tipText;
         hitArea = (if sparse
                    then ''<circle cx="'' @ r1 cx @ ''" cy="'' @ r1 (de_y e)
                      @ ''" r="15" fill="transparent" class="xychart-hit"/>''
                    else [])
     in ''<g class="xychart-dot-group">'' @ hitArea @ dotCircle str e
        @ ''<title>'' @ escapeXml (tipTitle (de_label e) tipText) @ ''</title>'' @ tip @ ''</g>'')\<close>

definition tickLabelElement :: "(real \<Rightarrow> string) \<Rightarrow> string \<Rightarrow> Tick \<Rightarrow> string" where
  \<open>tickLabelElement str shift tick =
    ''<text x="'' @ str (tick_labelX tick) @ ''" y="'' @ str (tick_labelY tick)
      @ ''" text-anchor="'' @ tick_textAnchor tick @ ''" ''
      @ ''font-size="14" font-weight="400" ''
      @ ''dy="'' @ shift @ ''" class="xychart-label">'' @ escapeXml (tick_label tick) @ ''</text>''\<close>

definition axisTitleElement :: "(real \<Rightarrow> string) \<Rightarrow> string \<Rightarrow> AxisTitle \<Rightarrow> string" where
  \<comment> \<open>\<open>t.rotate\<close> is truthy when present and not zero\<close>
  \<open>axisTitleElement str shift t =
    (let transform =
           (case at_rotate t of
              None \<Rightarrow> []
            | Some rot \<Rightarrow>
                if rot = 0 then []
                else '' transform="rotate('' @ str rot @ '','' @ str (at_x t) @ '','' @ str (at_y t)
                       @ '')"'')
     in ''<text x="'' @ str (at_x t) @ ''" y="'' @ str (at_y t) @ ''" text-anchor="middle"''
          @ transform @ '' ''
          @ ''font-size="15" font-weight="500" ''
          @ ''dy="'' @ shift @ ''" class="xychart-axis-title">'' @ escapeXml (at_text t)
          @ ''</text>'')\<close>

definition chartTitleElement :: "(real \<Rightarrow> string) \<Rightarrow> string \<Rightarrow> ChartTitle \<Rightarrow> string" where
  \<open>chartTitleElement str shift t =
    ''<text x="'' @ str (ct_x t) @ ''" y="'' @ str (ct_y t) @ ''" text-anchor="middle" ''
      @ ''font-size="18" font-weight="600" ''
      @ ''dy="'' @ shift @ ''" class="xychart-title">'' @ escapeXml (ct_text t) @ ''</text>''\<close>

definition legendLabelElement :: "(real \<Rightarrow> string) \<Rightarrow> string \<Rightarrow> LegendItem \<Rightarrow> string" where
  \<open>legendLabelElement str shift item =
    ''<text x="'' @ str (li_x item + 14 + 6) @ ''" y="'' @ str (li_y item)
      @ ''" text-anchor="start" ''
      @ ''font-size="14" font-weight="400" ''
      @ ''dy="'' @ shift @ ''" class="xychart-label">'' @ escapeXml (li_label item) @ ''</text>''\<close>

definition relabelled :: "DotEntry \<Rightarrow> DotEntry \<Rightarrow> bool" where
  \<comment> \<open>the same entry but for its label, present in both or in neither\<close>
  "relabelled a b \<longleftrightarrow> b = a\<lparr>de_label := de_label b\<rparr> \<and> truthy (de_label a) = truthy (de_label b)"

subsection \<open>Example charts\<close>



definition dotAt :: "real \<Rightarrow> real \<Rightarrow> string option \<Rightarrow> DotEntry" where
  "dotAt x y label =
    \<lparr>de_x = x, de_y = y, de_value = y, de_label = label, de_seriesIndex = 0, de_colorIndex = 0\<rparr>"

definition widthByLength :: "string \<Rightarrow> real \<Rightarrow> real \<Rightarrow> real" where
  \<comment> \<open>a stand-in for \<open>estimateTextWidth\<close>: eight units per character\<close>
  "widthByLength t fontSize fontWeight = 8 * real (length t)"




section \<open>Properties of the colour palette\<close>

lemma isHexDigit_cases:
  "isHexDigit c \<longleftrightarrow> c \<in> set ''0123456789abcdefABCDEF''"
  by (auto simp: isHexDigit_def digitValue_def hexDigitTable_def)

lemma isHexDigit_not_special:
  assumes "isHexDigit c"
  shows "\<not> isWhiteSpace c" "c \<noteq> CHR ''-''" "c \<noteq> CHR ''+''" "c \<noteq> CHR ''x''" "c \<noteq> CHR ''X''"
  using assms by (auto simp: isHexDigit_cases isWhiteSpace_def)

lemma digitValue_less:
  "isHexDigit c \<Longrightarrow> the (digitValue c) < 16"
  by (auto simp: isHexDigit_cases digitValue_def hexDigitTable_def)

lemma isLowerHexDigit_isHexDigit: "isLowerHexDigit c \<Longrightarrow> isHexDigit c"
  by (auto simp: isHexDigit_cases isLowerHexDigit_def)

lemma hexDigitChar_digitValue:
  "isLowerHexDigit c \<Longrightarrow> hexDigitChar (the (digitValue c)) = c"
  by (auto simp: isLowerHexDigit_def digitValue_def hexDigitTable_def hexDigitChar_def)

lemma parseInt16_pair:
  assumes "isHexDigit a" "isHexDigit b"
  shows "parseInt16 [a, b] = Some (int (16 * the (digitValue a) + the (digitValue b)))"
  using assms isHexDigit_not_special[OF assms(1)] isHexDigit_not_special[OF assms(2)]
  by (simp add: parseInt16_def stripSign_def stripHexPrefix_def hexValue_def)

lemma length_six:
  "length ds = 6 \<Longrightarrow> \<exists>a b c d e f. ds = [a, b, c, d, e, f]"
  by (auto simp: numeral_eq_Suc length_Suc_conv)

lemma padStart2_natToHex:
  assumes "n < 256"
  shows "padStart2 (natToHex n) = [hexDigitChar (n div 16), hexDigitChar (n mod 16)]"
proof (cases "n < 16")
  case True
  then show ?thesis
    by (simp add: natToHex.simps padStart2_def hexDigitChar_def)
next
  case False
  with assms have "n div 16 < 16" by simp
  with False show ?thesis
    by (simp add: natToHex.simps[of n] natToHex.simps[of "n div 16"] padStart2_def)
qed

lemma js_rem_nonneg:
  assumes "0 \<le> a" "0 < b"
  shows "0 \<le> js_rem a b" "js_rem a b < b"
proof -
  have q: "\<not> a / b < 0" using assms by (simp add: not_less)
  have ab: "a / b * b = a" using assms by simp
  have "of_int \<lfloor>a / b\<rfloor> * b \<le> a / b * b"
    using assms by (intro mult_right_mono) simp_all
  then have "of_int \<lfloor>a / b\<rfloor> * b \<le> a" using ab by simp
  then show "0 \<le> js_rem a b" using q by (simp add: js_rem_def js_trunc_def mult.commute)
  have "a / b < of_int \<lfloor>a / b\<rfloor> + 1" by linarith
  then have "a / b * b < (of_int \<lfloor>a / b\<rfloor> + 1) * b"
    using assms by (intro mult_strict_right_mono) simp_all
  then have "a < (of_int \<lfloor>a / b\<rfloor> + 1) * b" using ab by simp
  then show "js_rem a b < b" using q by (simp add: js_rem_def js_trunc_def algebra_simps)
qed

lemma js_rem_lower:
  assumes "0 < b"
  shows "- b < js_rem a b"
proof (cases "a / b < 0")
  case True
  have ab: "a / b * b = a" using assms by simp
  have "of_int \<lceil>a / b\<rceil> < a / b + 1" by linarith
  then have "of_int \<lceil>a / b\<rceil> * b < (a / b + 1) * b"
    using assms by (intro mult_strict_right_mono) simp_all
  then have "of_int \<lceil>a / b\<rceil> * b < a + b" using ab by (simp add: algebra_simps)
  then show ?thesis using True by (simp add: js_rem_def js_trunc_def algebra_simps)
next
  case False
  then have "0 \<le> a" using assms by (simp add: not_less zero_le_divide_iff)
  from js_rem_nonneg(1)[OF this assms] assms show ?thesis by linarith
qed

lemma hue_wrap:
  "0 \<le> js_rem (js_rem a 360 + 360) 360 \<and> js_rem (js_rem a 360 + 360) 360 < 360"
proof -
  have "- 360 < js_rem a 360" using js_rem_lower[of 360 a] by simp
  then have "0 \<le> js_rem a 360 + 360" by simp
  from js_rem_nonneg[OF this, of 360] show ?thesis by simp
qed


lemma hexToRgb_wellformed:
  assumes "isHexColor s"
  shows "hexToRgb s =
    (Some (real (channelOf s 0)), Some (real (channelOf s 1)), Some (real (channelOf s 2)))"
proof -
  from assms obtain ds where s: "s = CHR ''#'' # ds" and len: "length ds = 6"
    and dig: "list_all isHexDigit ds"
    by (auto simp: isHexColor_def split: list.splits)
  from length_six[OF len] obtain a b c d e f where ds: "ds = [a, b, c, d, e, f]" by blast
  from dig ds have h: "isHexDigit a" "isHexDigit b" "isHexDigit c" "isHexDigit d"
    "isHexDigit e" "isHexDigit f" by simp_all
  show ?thesis
    by (simp add: hexToRgb_def s ds substring_def channelOf_def
        parseInt16_pair[OF h(1) h(2)] parseInt16_pair[OF h(3) h(4)] parseInt16_pair[OF h(5) h(6)])
qed

lemma channelOf_le:
  assumes "isHexColor s" "k < 3"
  shows "channelOf s k \<le> 255"
proof -
  from assms obtain ds where s: "s = CHR ''#'' # ds" and len: "length ds = 6"
    and dig: "list_all isHexDigit ds"
    by (auto simp: isHexColor_def split: list.splits)
  from assms(2) len have "2 * k < length ds" "2 * k + 1 < length ds" by simp_all
  with dig have "isHexDigit (ds ! (2 * k))" "isHexDigit (ds ! (2 * k + 1))"
    by (simp_all add: list_all_length)
  from digitValue_less[OF this(1)] digitValue_less[OF this(2)]
  show ?thesis by (simp add: channelOf_def s)
qed

lemma Math_round_clamp_range:
  "0 \<le> Math_round (max 0 (min 255 x)) \<and> Math_round (max 0 (min 255 x)) \<le> 255"
  unfolding Math_round_def by (simp add: le_floor_iff floor_le_iff)

lemma clampToHex_Some:
  "clampToHex (Some x) = hexPair (Math_round (max 0 (min 255 x)))"
proof -
  let ?k = "Math_round (max 0 (min 255 x))"
  from Math_round_clamp_range[of x] have k: "0 \<le> ?k" "?k \<le> 255" by simp_all
  then have "nat ?k < 256" by simp
  from padStart2_natToHex[OF this] k show ?thesis
    by (simp add: clampToHex_def toString16_def intToHex_def hexPair_def)
qed

lemma mixHexColors_wellformed:
  assumes "isHexColor bg" "isHexColor fg"
  shows "mixHexColors bg fg ratio =
    CHR ''#'' # hexPair (mixClamped bg fg ratio 0) @ hexPair (mixClamped bg fg ratio 1)
      @ hexPair (mixClamped bg fg ratio 2)"
  by (simp add: mixHexColors_def hexToRgb_wellformed[OF assms(1)] hexToRgb_wellformed[OF assms(2)]
      mixChannel_def rgbToHex_def clampToHex_Some mixClamped_def)

lemma Math_round_of_nat: "Math_round (real n) = int n"
  unfolding Math_round_def by linarith


subsection \<open>Mixing two colours\<close>




lemma clamp_channel:
  assumes "n \<le> (255::nat)"
  shows "Math_round (max 0 (min 255 (real n))) = int n"
proof -
  have "max 0 (min 255 (real n)) = real n" using assms by (simp add: max_def min_def)
  then show ?thesis by (simp only: Math_round_of_nat)
qed

lemma mixClamped_zero:
  assumes "isHexColor bg" "k < 3"
  shows "mixClamped bg fg 0 k = int (channelOf bg k)"
  using clamp_channel[OF channelOf_le[OF assms]] by (simp add: mixClamped_def)

lemma mixClamped_one:
  assumes "isHexColor fg" "k < 3"
  shows "mixClamped bg fg 1 k = int (channelOf fg k)"
  using clamp_channel[OF channelOf_le[OF assms]] by (simp add: mixClamped_def)

lemma hexPair_int: "hexPair (int n) = [hexDigitChar (n div 16), hexDigitChar (n mod 16)]"
  by (simp only: hexPair_def nat_int)

lemma hexPair_digits:
  assumes "isLowerHexDigit a" "isLowerHexDigit b"
  shows "hexPair (int (16 * the (digitValue a) + the (digitValue b))) = [a, b]"
proof -
  have "the (digitValue b) < 16"
    by (rule digitValue_less[OF isLowerHexDigit_isHexDigit[OF assms(2)]])
  then have "(16 * the (digitValue a) + the (digitValue b)) div 16 = the (digitValue a)"
    "(16 * the (digitValue a) + the (digitValue b)) mod 16 = the (digitValue b)"
    by simp_all
  then show ?thesis
    by (simp only: hexPair_int hexDigitChar_digitValue[OF assms(1)]
        hexDigitChar_digitValue[OF assms(2)])
qed

lemma canonicalHex_lower:
  assumes "isLowerHexColor s"
  shows "canonicalHex s = s"
proof -
  from assms obtain ds where s: "s = CHR ''#'' # ds" and len: "length ds = 6"
    and dig: "list_all isLowerHexDigit ds"
    by (auto simp: isLowerHexColor_def split: list.splits)
  from length_six[OF len] obtain a b c d e f where ds: "ds = [a, b, c, d, e, f]" by blast
  from dig ds have h: "isLowerHexDigit a" "isLowerHexDigit b" "isLowerHexDigit c"
    "isLowerHexDigit d" "isLowerHexDigit e" "isLowerHexDigit f" by simp_all
  have "channelOf s 0 = 16 * the (digitValue a) + the (digitValue b)"
    "channelOf s 1 = 16 * the (digitValue c) + the (digitValue d)"
    "channelOf s 2 = 16 * the (digitValue e) + the (digitValue f)"
    by (simp_all add: channelOf_def s ds)
  then show ?thesis
    by (simp only: canonicalHex_def hexPair_digits[OF h(1) h(2)] hexPair_digits[OF h(3) h(4)]
        hexPair_digits[OF h(5) h(6)]) (simp add: s ds)
qed

text \<open>
  Claim C6, as the code has it. For well-formed colours, \<open>mixHexColors bg fg 0\<close> is
  \<open>bg\<close> and \<open>mixHexColors bg fg 1\<close> is \<open>fg\<close>, each respelled with lower-case digits
  (\<open>toString(16)\<close> prints lower case): the result is the very input string whenever that
  input is written with lower-case digits.
\<close>

theorem mixHexColors_endpoints:
  assumes "isHexColor bg" "isHexColor fg"
  shows "mixHexColors bg fg 0 = canonicalHex bg
    \<and> mixHexColors bg fg 1 = canonicalHex fg
    \<and> (isLowerHexColor bg \<longrightarrow> mixHexColors bg fg 0 = bg)
    \<and> (isLowerHexColor fg \<longrightarrow> mixHexColors bg fg 1 = fg)"
proof -
  have z: "mixHexColors bg fg 0 = canonicalHex bg"
    by (simp add: mixHexColors_wellformed[OF assms] mixClamped_zero[OF assms(1)] canonicalHex_def)
  have o: "mixHexColors bg fg 1 = canonicalHex fg"
    by (simp add: mixHexColors_wellformed[OF assms] mixClamped_one[OF assms(2)] canonicalHex_def)
  from z o canonicalHex_lower show ?thesis by simp
qed

theorem mixHexColors_endpoints_witness:
  "isHexColor ''#3b82f6'' \<and> isHexColor ''#FFFFFF'' \<and> isLowerHexColor ''#3b82f6''
   \<and> mixHexColors ''#3b82f6'' ''#FFFFFF'' 0 = ''#3b82f6''
   \<and> mixHexColors ''#3b82f6'' ''#FFFFFF'' 1 = canonicalHex ''#FFFFFF''
   \<and> canonicalHex ''#FFFFFF'' = ''#ffffff''"
proof -
  have a: "isHexColor ''#3b82f6''" by code_simp
  have b: "isHexColor ''#FFFFFF''" by code_simp
  have l: "isLowerHexColor ''#3b82f6''" by code_simp
  have c: "canonicalHex ''#FFFFFF'' = ''#ffffff''" by code_simp
  from mixHexColors_endpoints[OF a b] a b l c show ?thesis by blast
qed

text \<open>
  Claim C6 as stated, string equality for every well-formed colour, fails on upper-case
  digits: \<open>#FFFFFF\<close> comes back as \<open>#ffffff\<close>.
\<close>

theorem mixHexColors_endpoints_counterexample:
  "isHexColor ''#FFFFFF'' \<and> isHexColor ''#000000''
   \<and> mixHexColors ''#FFFFFF'' ''#000000'' 0 = ''#ffffff''
   \<and> mixHexColors ''#FFFFFF'' ''#000000'' 0 \<noteq> ''#FFFFFF''
   \<and> mixHexColors ''#000000'' ''#FFFFFF'' 1 \<noteq> ''#FFFFFF''"
  by code_simp

subsection \<open>Series colours\<close>

text \<open>
  Claim C7. \<open>getSeriesColor\<close> at index 0 returns the accent string unchanged, whatever
  the accent and whatever the background, present or absent.
\<close>

theorem getSeriesColor_zero: "getSeriesColor 0 accentColor bgColor = accentColor"
  by (simp add: getSeriesColor_def)

lemma hexToHsl_hue_wellformed:
  assumes "isHexColor s"
  shows "fst (hexToHsl s) \<noteq> None"
proof -
  from hexToRgb_wellformed[OF assms]
  have "parseInt16 (substring 0 2 (remove1 (CHR ''#'') s)) \<noteq> None"
    "parseInt16 (substring 2 4 (remove1 (CHR ''#'') s)) \<noteq> None"
    "parseInt16 (substring 4 6 (remove1 (CHR ''#'') s)) \<noteq> None"
    by (auto simp: hexToRgb_def Let_def)
  then show ?thesis
    by (auto simp: hexToHsl_def Let_def split: option.splits)
qed

lemma Math_ceil_half_pos: "0 < index \<Longrightarrow> 1 \<le> Math_ceil (index / 2)"
  unfolding Math_ceil_def by (simp add: le_ceiling_iff)

text \<open>
  Claim C5. For every index above 0 the lightness handed to \<open>hslToHex\<close> lies in
  \<open>[25, 78]\<close>, being \<open>max 25 (48 - 13 * tier)\<close> or \<open>min 78 (55 + 11 * tier)\<close> with
  \<open>tier = ceil (index / 2)\<close>, and the hue lies in \<open>[0, 360)\<close>. The hue is a number for
  every well-formed accent; only an accent string that does not parse makes it \<open>NaN\<close>.
\<close>

theorem getSeriesColor_lightness_hue:
  assumes "0 < index"
  shows "(case seriesHsl index accentColor bgColor of
            (newH, chartS, l) \<Rightarrow>
              25 \<le> l \<and> l \<le> 78
              \<and> (l = max 25 (48 - real_of_int (Math_ceil (index / 2)) * 13)
                 \<or> l = min 78 (55 + real_of_int (Math_ceil (index / 2)) * 11))
              \<and> (case newH of
                    Some v \<Rightarrow> 0 \<le> v \<and> v < 360
                  | None \<Rightarrow> \<not> isHexColor accentColor))"
proof -
  obtain h s l0 where hs: "hexToHsl accentColor = (h, s, l0)" by (cases "hexToHsl accentColor")
  have t: "1 \<le> real_of_int (Math_ceil (index / 2))"
    using Math_ceil_half_pos[OF assms] by simp
  have hue: "isHexColor accentColor \<Longrightarrow> h \<noteq> None"
    using hexToHsl_hue_wellformed[of accentColor] hs by simp
  show ?thesis
    using t hue hue_wrap
    by (auto simp: seriesHsl_def hs Let_def split: option.splits)
qed

theorem getSeriesColor_lightness_hue_witness:
  "(0::real) < 3
   \<and> seriesHsl 3 ''#3b82f6'' (Some ''#18181b'') = (Some (45108 / 187), Some 85, 77)
   \<and> (25::real) \<le> 77 \<and> (77::real) \<le> 78 \<and> (0::real) \<le> 45108 / 187 \<and> (45108::real) / 187 < 360"
proof -
  have p: "(0::real) < 3" by simp
  have v: "seriesHsl 3 ''#3b82f6'' (Some ''#18181b'') = (Some (45108 / 187), Some 85, 77)"
    by code_simp
  from getSeriesColor_lightness_hue[OF p, of "''#3b82f6''" "Some ''#18181b''"] p v
  show ?thesis by simp
qed

section \<open>Properties of the chart renderer\<close>

subsection \<open>Bar paths\<close>

text \<open>
  Claim C8. Whenever the effective radius \<open>min radius (min (w / 2) (h / 2))\<close> is at most
  0, in particular whenever the requested radius is at most 0, both bar path builders
  return the rectangle path \<open>M x,y h w v h h -w Z\<close>, the same string from both.
\<close>

theorem bar_paths_rectangle:
  assumes "radius \<le> 0 \<or> min radius (min (w / 2) (h / 2)) \<le> 0"
  shows "roundedTopBarPath x y w h radius = rectanglePath x y w h
    \<and> roundedRightBarPath x y w h radius = rectanglePath x y w h
    \<and> rectanglePath x y w h =
        ''M'' @ r1 x @ '','' @ r1 y @ '' h'' @ r1 w @ '' v'' @ r1 h @ '' h'' @ r1 (- w) @ '' Z''"
proof -
  from assms have "min radius (min (w / 2) (h / 2)) \<le> 0" by auto
  then show ?thesis
    by (simp add: roundedTopBarPath_def roundedRightBarPath_def rectanglePath_def)
qed

theorem bar_paths_rectangle_witness:
  "((0::real) \<le> 0 \<or> min (0::real) (min (30 / 2) (40 / 2)) \<le> 0)
   \<and> roundedTopBarPath 10 20 30 40 0 = ''M10,20 h30 v40 h-30 Z''
   \<and> roundedRightBarPath 10 20 30 40 0 = ''M10,20 h30 v40 h-30 Z''"
proof -
  have p: "(0::real) \<le> 0 \<or> min (0::real) (min (30 / 2) (40 / 2)) \<le> 0" by simp
  have v: "rectanglePath 10 20 30 40 = ''M10,20 h30 v40 h-30 Z''" by code_simp
  from bar_paths_rectangle[OF p, of 10 20] p v show ?thesis by simp
qed

subsection \<open>The shape of the spline path\<close>

lemma foldl_append:
  "foldl (\<lambda>path sg. path @ f sg) acc xs = acc @ concat (map f xs)"
  by (induction xs arbitrary: acc) simp_all

lemma length_bezierSegments: "length (bezierSegments points) = length points - 1"
  by (simp add: bezierSegments_def Let_def)

lemma smoothCurvePath_long:
  assumes "3 \<le> length points"
  shows "smoothCurvePath points =
    moveTo (points ! 0) @ concat (map cubicCommand (bezierSegments points))"
proof -
  from assms obtain a b c rest where "points = a # b # c # rest"
    by (cases points; cases "tl points"; cases "tl (tl points)") auto
  then show ?thesis by (simp add: smoothCurvePath_def foldl_append)
qed

lemma digit_isCoordChar:
  assumes "k < 10"
  shows "isCoordChar (''0123456789'' ! k)"
proof -
  have "list_all (\<lambda>k. isCoordChar (''0123456789'' ! k)) [0..<10]" by code_simp
  with assms show ?thesis by (simp add: list_all_iff)
qed

lemma natToDec_chars: "list_all isCoordChar (natToDec n)"
proof (induction n rule: natToDec.induct)
  case (1 n)
  show ?case
  proof (cases "n < 10")
    case True
    with digit_isCoordChar[of n] show ?thesis by (subst natToDec.simps) simp
  next
    case False
    have "n mod 10 < 10" by simp
    from digit_isCoordChar[OF this] 1[OF False] False show ?thesis
      by (subst natToDec.simps) simp
  qed
qed

lemma r1_chars: "list_all isCoordChar (r1 v)"
proof -
  have m: "isCoordChar (CHR ''-'')" and d: "isCoordChar (CHR ''.'')" by code_simp+
  show ?thesis
    by (simp add: r1_def Let_def natToDec_chars m d)
qed

lemma count_r1:
  assumes "\<not> isCoordChar c"
  shows "count_list (r1 v) c = 0"
proof -
  have "c \<notin> set (r1 v)"
    using assms r1_chars[of v] by (auto simp: list_all_iff)
  then show ?thesis by (simp add: count_list_0_iff)
qed

lemma command_letters:
  "\<not> isCoordChar (CHR ''M'')" "\<not> isCoordChar (CHR ''C'')" "\<not> isCoordChar (CHR ''L'')"
  by code_simp+

lemma count_moveTo:
  "count_list (moveTo p) (CHR ''M'') = 1" "count_list (moveTo p) (CHR ''C'') = 0"
  "count_list (moveTo p) (CHR ''L'') = 0"
  by (simp_all add: moveTo_def count_r1 command_letters)

lemma count_cubicCommand:
  "count_list (cubicCommand sg) (CHR ''M'') = 0" "count_list (cubicCommand sg) (CHR ''C'') = 1"
  "count_list (cubicCommand sg) (CHR ''L'') = 0"
  by (simp_all add: cubicCommand_def count_r1 command_letters split: prod.splits)

lemma count_concat_cubic:
  "count_list (concat (map cubicCommand sgs)) (CHR ''M'') = 0"
  "count_list (concat (map cubicCommand sgs)) (CHR ''C'') = length sgs"
  "count_list (concat (map cubicCommand sgs)) (CHR ''L'') = 0"
  by (induction sgs) (simp_all add: count_cubicCommand)

text \<open>
  Claim C4. \<open>smoothCurvePath\<close> returns the empty string for no point, a single move-to
  for one point, a move-to and one line-to for two points, and for three or more points
  a move-to to the first point followed by one cubic command per interval: exactly
  \<open>n - 1\<close> letters \<open>C\<close>, one \<open>M\<close> and no \<open>L\<close>. Every non-empty input starts with the
  move to its first point.
\<close>

theorem smoothCurvePath_cases:
  "smoothCurvePath [] = []
   \<and> smoothCurvePath [p] = moveTo p
   \<and> smoothCurvePath [p, q] = moveTo p @ '' L'' @ r1 (fst q) @ '','' @ r1 (snd q)
   \<and> (3 \<le> length points \<longrightarrow>
        smoothCurvePath points =
          moveTo (points ! 0) @ concat (map cubicCommand (bezierSegments points))
        \<and> length (bezierSegments points) = length points - 1
        \<and> count_list (smoothCurvePath points) (CHR ''C'') = length points - 1
        \<and> count_list (smoothCurvePath points) (CHR ''M'') = 1
        \<and> count_list (smoothCurvePath points) (CHR ''L'') = 0)
   \<and> (points \<noteq> [] \<longrightarrow> (\<exists>rest. smoothCurvePath points = moveTo (hd points) @ rest))"
proof (intro conjI impI)
  show "smoothCurvePath [] = []" "smoothCurvePath [p] = moveTo p"
    "smoothCurvePath [p, q] = moveTo p @ '' L'' @ r1 (fst q) @ '','' @ r1 (snd q)"
    by (simp_all add: smoothCurvePath_def)
next
  assume n: "3 \<le> length points"
  show e: "smoothCurvePath points =
      moveTo (points ! 0) @ concat (map cubicCommand (bezierSegments points))"
    by (rule smoothCurvePath_long[OF n])
  show "length (bezierSegments points) = length points - 1"
    by (rule length_bezierSegments)
  show "count_list (smoothCurvePath points) (CHR ''C'') = length points - 1"
    by (simp add: e count_moveTo count_concat_cubic length_bezierSegments)
  show "count_list (smoothCurvePath points) (CHR ''M'') = 1"
    by (simp add: e count_moveTo count_concat_cubic)
  show "count_list (smoothCurvePath points) (CHR ''L'') = 0"
    by (simp add: e count_moveTo count_concat_cubic)
next
  assume ne: "points \<noteq> []"
  show "\<exists>rest. smoothCurvePath points = moveTo (hd points) @ rest"
  proof (cases "3 \<le> length points")
    case True
    from smoothCurvePath_long[OF True] ne show ?thesis by (simp add: hd_conv_nth)
  next
    case False
    with ne obtain a where "points = [a] \<or> (\<exists>b. points = [a, b])"
      by (cases points; cases "tl points"; cases "tl (tl points)") auto
    then show ?thesis by (auto simp: smoothCurvePath_def)
  qed
qed

theorem smoothCurvePath_cases_witness:
  "(3::nat) \<le> length ([(0, 0), (10, 10), (20, 0), (30, 5)] :: (real \<times> real) list)
   \<and> smoothCurvePath [(0, 0), (10, 10), (20, 0), (30, 5)] =
       ''M0,0 C3.3,5.4 6.7,10.9 10,10 C13.3,9.1 16.7,1.9 20,0 C23.3,-1.9 26.7,1.6 30,5''
   \<and> count_list (smoothCurvePath [(0, 0), (10, 10), (20, 0), (30, 5)]) (CHR ''C'') = 3"
proof -
  let ?pts = "[(0, 0), (10, 10), (20, 0), (30, 5)] :: (real \<times> real) list"
  have n: "3 \<le> length ?pts" by simp
  have v: "smoothCurvePath ?pts =
       ''M0,0 C3.3,5.4 6.7,10.9 10,10 C13.3,9.1 16.7,1.9 20,0 C23.3,-1.9 26.7,1.6 30,5''"
    by code_simp
  from smoothCurvePath_cases[of "(0, 0)" "(10, 10)" ?pts] n
  have "count_list (smoothCurvePath ?pts) (CHR ''C'') = length ?pts - 1" by blast
  moreover have "length ?pts - 1 = 3" by simp
  ultimately have c: "count_list (smoothCurvePath ?pts) (CHR ''C'') = 3" by (rule trans)
  from n v c show ?thesis by blast
qed

subsection \<open>Continuity of the spline at the knots\<close>

lemma bezier_has_derivative:
  "(bezier p0 p1 p2 p3 has_real_derivative bezierDeriv p0 p1 p2 p3 t) (at t)"
  unfolding bezier_def[abs_def] bezierDeriv_def
  by (auto intro!: derivative_eq_intros simp: algebra_simps power2_eq_square power3_eq_cube)

lemma curve_has_derivative:
  "(curveX cv has_real_derivative curveDx cv t) (at t)"
  "(curveY cv has_real_derivative curveDy cv t) (at t)"
proof -
  obtain p0 p1 p2 p3 where cv: "cv = (p0, p1, p2, p3)" by (cases cv) auto
  have x: "curveX cv = bezier (fst p0) (fst p1) (fst p2) (fst p3)"
    and y: "curveY cv = bezier (snd p0) (snd p1) (snd p2) (snd p3)"
    by (simp_all add: curveX_def curveY_def cv fun_eq_iff)
  show "(curveX cv has_real_derivative curveDx cv t) (at t)"
    unfolding x by (simp add: curveDx_def cv bezier_has_derivative)
  show "(curveY cv has_real_derivative curveDy cv t) (at t)"
    unfolding y by (simp add: curveDy_def cv bezier_has_derivative)
qed

lemma bezier_ends:
  "bezier p0 p1 p2 p3 0 = p0" "bezier p0 p1 p2 p3 1 = p3"
  "bezierDeriv p0 p1 p2 p3 0 = 3 * (p1 - p0)" "bezierDeriv p0 p1 p2 p3 1 = 3 * (p3 - p2)"
  by (simp_all add: bezier_def bezierDeriv_def)

lemma nth_intervalWidths:
  assumes "i + 1 < length points"
  shows "intervalWidths points ! i = fst (points ! (i + 1)) - fst (points ! i)"
proof -
  from assms have "i < length points - 1" by simp
  then show ?thesis by (simp add: intervalWidths_def)
qed

lemma nth_bezierSegments:
  assumes "i + 1 < length points"
  shows "bezierSegments points ! i =
    ((fst (points ! i) + intervalWidths points ! i / 3,
      snd (points ! i) + knotSlopes points ! i * (intervalWidths points ! i / 3)),
     (fst (points ! (i + 1)) - intervalWidths points ! i / 3,
      snd (points ! (i + 1)) - knotSlopes points ! (i + 1) * (intervalWidths points ! i / 3)),
     points ! (i + 1))"
proof -
  from assms have "i < length points - 1" by simp
  then show ?thesis by (simp add: bezierSegments_def Let_def)
qed

lemma nth_pathCurves:
  assumes "i < length sgs"
  shows "pathCurves cur sgs ! i =
    ((if i = 0 then cur else snd (snd (sgs ! (i - 1)))), fst (sgs ! i), fst (snd (sgs ! i)),
     snd (snd (sgs ! i)))"
  using assms
proof (induction cur sgs arbitrary: i rule: pathCurves.induct)
  case (1 cur)
  then show ?case by simp
next
  case (2 cur c1 c2 e rest)
  show ?case
  proof (cases i)
    case 0
    then show ?thesis by simp
  next
    case (Suc j)
    with 2 show ?thesis by (cases j) simp_all
  qed
qed

lemma widths_positive:
  assumes "sorted_wrt (<) (map fst points)" "i + 1 < length points"
  shows "0 < intervalWidths points ! i"
proof -
  from assms(2) have "i < i + 1" "i + 1 < length (map fst points)" by simp_all
  from sorted_wrt_nth_less[OF assms(1) this]
  have "fst (points ! i) < fst (points ! (i + 1))" using assms(2) by simp
  then show ?thesis by (simp add: nth_intervalWidths[OF assms(2)])
qed

text \<open>
  Claim C3. For three or more points with strictly increasing x, at every interior knot
  \<open>k\<close> the incoming curve ends and the outgoing curve starts at the point
  \<open>(x k, y k)\<close>, and the derivative \<open>dy/dx\<close> of the incoming curve at its end and of
  the outgoing curve at its start both equal \<open>slopes k\<close>, in exact arithmetic. The
  derivatives are those of the Bernstein polynomials, and \<open>dx/dt\<close> is positive on both
  sides.
\<close>

theorem smoothCurvePath_C1_continuous:
  assumes "3 \<le> length points" and "sorted_wrt (<) (map fst points)"
    and "1 \<le> k" and "k + 1 < length points"
  shows "(let curves = pathCurves (points ! 0) (bezierSegments points);
              incoming = curves ! (k - 1);
              outgoing = curves ! k
          in (curveX incoming 1, curveY incoming 1) = points ! k
           \<and> (curveX outgoing 0, curveY outgoing 0) = points ! k
           \<and> (curveX incoming has_real_derivative curveDx incoming 1) (at 1)
           \<and> (curveY incoming has_real_derivative curveDy incoming 1) (at 1)
           \<and> (curveX outgoing has_real_derivative curveDx outgoing 0) (at 0)
           \<and> (curveY outgoing has_real_derivative curveDy outgoing 0) (at 0)
           \<and> 0 < curveDx incoming 1 \<and> 0 < curveDx outgoing 0
           \<and> curveDy incoming 1 / curveDx incoming 1 = knotSlopes points ! k
           \<and> curveDy outgoing 0 / curveDx outgoing 0 = knotSlopes points ! k)"
proof -
  define j where "j = k - 1"
  with assms(3) have k: "k = j + 1" by simp
  have j1: "j + 1 < length points" and k1: "k + 1 < length points"
    using assms(4) k by simp_all
  have lj: "j < length (bezierSegments points)" and lk: "k < length (bezierSegments points)"
    using assms(4) k by (simp_all add: length_bezierSegments)
  define hj where "hj = intervalWidths points ! j"
  define hk where "hk = intervalWidths points ! k"
  have hj: "0 < hj" unfolding hj_def by (rule widths_positive[OF assms(2) j1])
  have hk: "0 < hk" unfolding hk_def by (rule widths_positive[OF assms(2) k1])
  obtain xk yk where pk: "points ! k = (xk, yk)" by (cases "points ! k")
  define s where "s = knotSlopes points ! k"
  obtain a b where inc: "pathCurves (points ! 0) (bezierSegments points) ! j =
      (a, b, (xk - hj / 3, yk - s * (hj / 3)), (xk, yk))"
    using nth_pathCurves[OF lj, of "points ! 0"] nth_bezierSegments[OF j1] pk
    by (simp add: k hj_def s_def)
  obtain c d where out: "pathCurves (points ! 0) (bezierSegments points) ! k =
      ((xk, yk), (xk + hk / 3, yk + s * (hk / 3)), c, d)"
    using nth_pathCurves[OF lk, of "points ! 0"] nth_bezierSegments[OF k1]
      nth_bezierSegments[OF j1] pk
    by (simp add: k hk_def s_def)
  let ?inc = "pathCurves (points ! 0) (bezierSegments points) ! j"
  let ?out = "pathCurves (points ! 0) (bezierSegments points) ! k"
  have ends: "(curveX ?inc 1, curveY ?inc 1) = points ! k"
    "(curveX ?out 0, curveY ?out 0) = points ! k"
    by (simp_all add: inc out pk curveX_def curveY_def bezier_ends)
  have dx: "curveDx ?inc 1 = hj" "curveDx ?out 0 = hk"
    by (simp_all add: inc out curveDx_def bezier_ends)
  have dy: "curveDy ?inc 1 = s * hj" "curveDy ?out 0 = s * hk"
    by (simp_all add: inc out curveDy_def bezier_ends)
  have slopes: "curveDy ?inc 1 / curveDx ?inc 1 = s" "curveDy ?out 0 / curveDx ?out 0 = s"
    using hj hk by (simp_all add: dx dy)
  have pos: "0 < curveDx ?inc 1" "0 < curveDx ?out 0"
    using hj hk by (simp_all add: dx)
  have "k - 1 = j" by (simp add: j_def)
  then show ?thesis
    unfolding Let_def s_def[symmetric]
    using ends pos slopes curve_has_derivative[of ?inc 1] curve_has_derivative[of ?out 0]
    by simp
qed

theorem smoothCurvePath_C1_continuous_witness:
  "3 \<le> length ([(0, 0), (10, 10), (20, 0)] :: (real \<times> real) list)
   \<and> sorted_wrt (<) (map fst ([(0, 0), (10, 10), (20, 0)] :: (real \<times> real) list))
   \<and> (1::nat) \<le> 1 \<and> (1::nat) + 1 < length ([(0, 0), (10, 10), (20, 0)] :: (real \<times> real) list)
   \<and> knotSlopes [(0, 0), (10, 10), (20, 0)] ! 1 = 0
   \<and> (let curves = pathCurves ([(0, 0), (10, 10), (20, 0)] ! 0)
                       (bezierSegments [(0, 0), (10, 10), (20, 0)]);
            incoming = curves ! (1 - 1);
            outgoing = curves ! 1
        in (curveX incoming 1, curveY incoming 1) = [(0, 0), (10, 10), (20, 0)] ! 1
         \<and> (curveX outgoing 0, curveY outgoing 0) = [(0, 0), (10, 10), (20, 0)] ! 1
         \<and> (curveX incoming has_real_derivative curveDx incoming 1) (at 1)
         \<and> (curveY incoming has_real_derivative curveDy incoming 1) (at 1)
         \<and> (curveX outgoing has_real_derivative curveDx outgoing 0) (at 0)
         \<and> (curveY outgoing has_real_derivative curveDy outgoing 0) (at 0)
         \<and> 0 < curveDx incoming 1 \<and> 0 < curveDx outgoing 0
         \<and> curveDy incoming 1 / curveDx incoming 1 = knotSlopes [(0, 0), (10, 10), (20, 0)] ! 1
         \<and> curveDy outgoing 0 / curveDx outgoing 0 = knotSlopes [(0, 0), (10, 10), (20, 0)] ! 1)"
proof -
  let ?pts = "[(0, 0), (10, 10), (20, 0)] :: (real \<times> real) list"
  have a: "3 \<le> length ?pts" by simp
  have b: "sorted_wrt (<) (map fst ?pts)" by simp
  have c: "(1::nat) \<le> 1" by simp
  have d: "(1::nat) + 1 < length ?pts" by simp
  have s: "knotSlopes ?pts ! 1 = 0" by code_simp
  show ?thesis
    by (intro conjI a b c d s smoothCurvePath_C1_continuous[OF a b c d])
qed

subsection \<open>The dot grid\<close>





















text \<open>
  The hypothesis of the termination theorem is not idle: a loop with a gap of at most 0
  that starts at or below its limit uses up any fuel. A zero gap never gets there, its
  start being \<open>NaN\<close>; a negative gap comes from a negative extent.
\<close>

lemma walk_never_ends:
  assumes "gap \<le> 0" "v \<le> limit"
  shows "walk fuel v limit gap = None"
  using assms(2)
proof (induction fuel arbitrary: v)
  case 0
  then show ?case by simp
next
  case (Suc fuel)
  from Suc.prems assms(1) have "v + gap \<le> limit" by simp
  from Suc.IH[OF this] Suc.prems show ?case by simp
qed




subsection \<open>Escaped text in the markup\<close>

lemma replaceAll_append:
  "replaceAll c rep (a @ b) = replaceAll c rep a @ replaceAll c rep b"
  by (simp add: replaceAll_def)

lemma replaceAll_Cons:
  "replaceAll c rep (x # xs) = (if x = c then rep else [x]) @ replaceAll c rep xs"
  by (simp add: replaceAll_def)

lemma replaceAll_Nil: "replaceAll c rep [] = []"
  by (simp add: replaceAll_def)

lemma escapeXml_Cons: "escapeXml (c # cs) = escapeChar c @ escapeXml cs"
  by (simp add: escapeXml_def escapeChar_def replaceAll_Cons replaceAll_append replaceAll_Nil)

lemma escapeXml_Nil: "escapeXml [] = []"
  by (simp add: escapeXml_def replaceAll_Nil)

lemma escapeXml_chars: "escapeXml t = concat (map escapeChar t)"
  by (induction t) (simp_all add: escapeXml_Nil escapeXml_Cons)

lemma escapedText_escapeXml: "escapedText (escapeXml t)"
  by (induction t) (simp_all add: escapeXml_Nil escapeXml_Cons escapeChar_def)

lemma unescapeXml_escapeXml: "unescapeXml (escapeXml t) = t"
  by (induction t) (simp_all add: escapeXml_Nil escapeXml_Cons escapeChar_def)

lemma count_escapeXml:
  "count_list (escapeXml t) (CHR ''<'') = 0"
  "count_list (escapeXml t) (CHR ''>'') = 0"
  "count_list (escapeXml t) (CHR 0x22) = 0"
  by (induction t) (simp_all add: escapeXml_Nil escapeXml_Cons escapeChar_def)

lemma markup_escapeXml: "markup (escapeXml t) = (0, 0, 0)"
  by (simp add: markup_def count_escapeXml)

lemma markup_letters:
  "\<not> isCoordChar (CHR ''<'')" "\<not> isCoordChar (CHR ''>'')" "\<not> isCoordChar (CHR 0x22)"
  by code_simp+

lemma count_natToDec:
  assumes "\<not> isCoordChar c"
  shows "count_list (natToDec n) c = 0"
proof -
  have "c \<notin> set (natToDec n)"
    using assms natToDec_chars[of n] by (auto simp: list_all_iff)
  then show ?thesis by (simp add: count_list_0_iff)
qed

lemmas count_zero =
  count_escapeXml
  count_r1[OF markup_letters(1)] count_r1[OF markup_letters(2)] count_r1[OF markup_letters(3)]
  count_natToDec[OF markup_letters(1)] count_natToDec[OF markup_letters(2)]
  count_natToDec[OF markup_letters(3)]

lemma markup_tooltipAbove:
  "markup (tooltipAbove etw shift cx topY t) = markup (tooltipAbove etw' shift cx' topY' t')"
  by (simp add: markup_def tooltipAbove_def Let_def tipPointer_def count_zero)

lemma markup_tipRows:
  assumes "length es = length es'"
  shows "markup (tipRows shift l r y es) = markup (tipRows shift l' r' y' es')"
  using assms
proof (induction es es' arbitrary: y y' rule: list_induct2)
  case Nil
  then show ?case by simp
next
  case (Cons e es e' es')
  from Cons.IH[of "y + 20" "y' + 20"] show ?case
    by (simp add: markup_def tipRow_def count_zero)
qed

lemma markup_multiTooltipAbove:
  assumes "length es = length es'"
  shows "markup (multiTooltipAbove etw shift cx topY label es)
    = markup (multiTooltipAbove etw' shift cx' topY' label' es')"
proof -
  have "markup (tipRows shift l r y es) = markup (tipRows shift l' r' y' es')" for l r y l' r' y'
    by (rule markup_tipRows[OF assms])
  then show ?thesis
    by (simp add: markup_def multiTooltipAbove_def Let_def tipPointer_def count_zero assms)
qed

lemma markup_dataAttrs:
  assumes "truthy l = truthy l'"
  shows "markup (dataAttrs str v l) = markup (dataAttrs str v l')"
  using assms by (simp add: markup_def dataAttrs_def count_zero)

lemma markup_barPathElement:
  assumes "truthy l = truthy l'"
  shows "markup (barPathElement str hz (bar\<lparr>bar_label := l\<rparr>))
    = markup (barPathElement str hz (bar\<lparr>bar_label := l'\<rparr>))"
proof -
  have "count_list (dataAttrs str v l) c = count_list (dataAttrs str v l') c"
    if "c = CHR ''<'' \<or> c = CHR ''>'' \<or> c = CHR 0x22" for c v
    using markup_dataAttrs[OF assms, of str v] that by (auto simp: markup_def)
  then show ?thesis by (simp add: markup_def barPathElement_def)
qed

lemma markup_barOverlayGroup:
  "markup (barOverlayGroup etw shift (bar\<lparr>bar_label := l\<rparr>))
    = markup (barOverlayGroup etw shift (bar\<lparr>bar_label := l'\<rparr>))"
  by (simp add: markup_def barOverlayGroup_def Let_def count_zero)

lemma markup_dotCircle:
  assumes "truthy l = truthy l'"
  shows "markup (dotCircle str (e\<lparr>de_label := l\<rparr>)) = markup (dotCircle str (e\<lparr>de_label := l'\<rparr>))"
proof -
  have "count_list (dataAttrs str v l) c = count_list (dataAttrs str v l') c"
    if "c = CHR ''<'' \<or> c = CHR ''>'' \<or> c = CHR 0x22" for c v
    using markup_dataAttrs[OF assms, of str v] that by (auto simp: markup_def)
  then show ?thesis by (simp add: markup_def dotCircle_def count_zero)
qed

lemma markup_dotCircle_relabelled:
  assumes "relabelled a b"
  shows "markup (dotCircle str a) = markup (dotCircle str b)"
proof -
  from assms have b: "b = a\<lparr>de_label := de_label b\<rparr>" and t: "truthy (de_label a) = truthy (de_label b)"
    by (simp_all add: relabelled_def)
  have "markup (dotCircle str (a\<lparr>de_label := de_label a\<rparr>)) = markup (dotCircle str (a\<lparr>de_label := de_label b\<rparr>))"
    by (rule markup_dotCircle[OF t])
  with b show ?thesis by simp
qed

lemma markup_dotCircles:
  assumes "list_all2 relabelled es es'"
  shows "markup (concat (map (dotCircle str) es)) = markup (concat (map (dotCircle str) es'))"
  using assms
proof (induction rule: list_all2_induct)
  case Nil
  then show ?case by simp
next
  case (Cons a es b es')
  with markup_dotCircle_relabelled[OF Cons.hyps(1), of str] show ?case
    by (simp add: markup_def)
qed

lemma markup_dotGroupSingle:
  assumes "truthy l = truthy l'"
  shows "markup (dotGroupSingle str etw shift sparse (e\<lparr>de_label := l\<rparr>))
    = markup (dotGroupSingle str etw shift sparse (e\<lparr>de_label := l'\<rparr>))"
proof -
  have c: "count_list (dotCircle str (e\<lparr>de_label := l\<rparr>)) c = count_list (dotCircle str (e\<lparr>de_label := l'\<rparr>)) c"
    if "c = CHR ''<'' \<or> c = CHR ''>'' \<or> c = CHR 0x22" for c
    using markup_dotCircle[OF assms, of str e] that by (auto simp: markup_def)
  have t: "count_list (tooltipAbove etw shift x y t) c = count_list (tooltipAbove etw shift x y t') c"
    if "c = CHR ''<'' \<or> c = CHR ''>'' \<or> c = CHR 0x22" for c x y t t'
    using markup_tooltipAbove[of etw shift x y t etw x y t'] that by (auto simp: markup_def)
  show ?thesis by (simp add: markup_def dotGroupSingle_def Let_def count_zero c t)
qed

lemma markup_dotGroupMulti:
  assumes "truthy l = truthy l'" "list_all2 relabelled es es'"
  shows "markup (dotGroupMulti str etw shift legend (e\<lparr>de_label := l\<rparr>) es)
    = markup (dotGroupMulti str etw shift legend' (e\<lparr>de_label := l'\<rparr>) es')"
proof -
  have len: "length es = length es'" using assms(2) by (rule list_all2_lengthD)
  have c0: "count_list (dotCircle str (e\<lparr>de_label := l\<rparr>)) c = count_list (dotCircle str (e\<lparr>de_label := l'\<rparr>)) c"
    if "c = CHR ''<'' \<or> c = CHR ''>'' \<or> c = CHR 0x22" for c
    using markup_dotCircle[OF assms(1), of str e] that by (auto simp: markup_def)
  have cs: "count_list (concat (map (dotCircle str) es)) c = count_list (concat (map (dotCircle str) es')) c"
    if "c = CHR ''<'' \<or> c = CHR ''>'' \<or> c = CHR 0x22" for c
    using markup_dotCircles[OF assms(2), of str] that by (auto simp: markup_def)
  have t: "count_list (multiTooltipAbove etw shift x y t (a # map f es)) c
      = count_list (multiTooltipAbove etw shift x' y' t' (a' # map f' es')) c"
    if "c = CHR ''<'' \<or> c = CHR ''>'' \<or> c = CHR 0x22" for c x y t x' y' t' a a' f f'
    using markup_multiTooltipAbove[of "a # map f es" "a' # map f' es'" etw shift x y t etw x' y' t'] len that
    by (auto simp: markup_def)
  show ?thesis
    by (simp add: markup_def dotGroupMulti_def Let_def count_zero c0 cs t)
qed

lemma markup_tickLabelElement:
  "markup (tickLabelElement str shift (tick\<lparr>tick_label := t\<rparr>))
    = markup (tickLabelElement str shift (tick\<lparr>tick_label := t'\<rparr>))"
  by (simp add: markup_def tickLabelElement_def count_zero)

lemma markup_axisTitleElement:
  "markup (axisTitleElement str shift (a\<lparr>at_text := t\<rparr>))
    = markup (axisTitleElement str shift (a\<lparr>at_text := t'\<rparr>))"
  by (simp add: markup_def axisTitleElement_def Let_def count_zero split: option.splits)

lemma markup_chartTitleElement:
  "markup (chartTitleElement str shift (ct\<lparr>ct_text := t\<rparr>))
    = markup (chartTitleElement str shift (ct\<lparr>ct_text := t'\<rparr>))"
  by (simp add: markup_def chartTitleElement_def count_zero)

lemma markup_legendLabelElement:
  "markup (legendLabelElement str shift (item\<lparr>li_label := t\<rparr>))
    = markup (legendLabelElement str shift (item\<lparr>li_label := t'\<rparr>))"
  by (simp add: markup_def legendLabelElement_def count_zero)

text \<open>
  Claim C10. \<open>escapeXml\<close> replaces every \<open>&\<close>, \<open><\<close>, \<open>>\<close> and double quote by its
  entity: its result has none of \<open><\<close>, \<open>>\<close> and the double quote, every \<open>&\<close> in it
  starts an entity, and the text can be read back from it. Every fragment that holds a
  label, a title or a tooltip text holds it escaped, so that the text decides nothing
  about the number of \<open><\<close>, \<open>>\<close> and double quotes of the fragment: the data
  attributes of bars and points, the title elements and tooltips of the overlay groups,
  the tick labels, the axis titles, the chart title and the legend labels. (A label that
  is absent or empty has no \<open>data-label\<close> attribute at all, hence the condition on the
  two labels.)
\<close>

theorem escapeXml_guards_text:
  "escapedText (escapeXml t)
   \<and> unescapeXml (escapeXml t) = t
   \<and> escapeXml t = concat (map escapeChar t)
   \<and> markup (escapeXml t) = (0, 0, 0)
   \<and> (truthy l = truthy l' \<longrightarrow>
        markup (dataAttrs str v l) = markup (dataAttrs str v l')
        \<and> markup (barPathElement str hz (bar\<lparr>bar_label := l\<rparr>))
            = markup (barPathElement str hz (bar\<lparr>bar_label := l'\<rparr>))
        \<and> markup (dotCircle str (e\<lparr>de_label := l\<rparr>)) = markup (dotCircle str (e\<lparr>de_label := l'\<rparr>))
        \<and> markup (dotGroupSingle str etw shift sparse (e\<lparr>de_label := l\<rparr>))
            = markup (dotGroupSingle str etw shift sparse (e\<lparr>de_label := l'\<rparr>))
        \<and> (list_all2 relabelled es es' \<longrightarrow>
              markup (dotGroupMulti str etw shift legend (e\<lparr>de_label := l\<rparr>) es)
              = markup (dotGroupMulti str etw shift legend' (e\<lparr>de_label := l'\<rparr>) es')))
   \<and> markup (barOverlayGroup etw shift (bar\<lparr>bar_label := l\<rparr>))
       = markup (barOverlayGroup etw shift (bar\<lparr>bar_label := l'\<rparr>))
   \<and> markup (tooltipAbove etw shift cx topY t) = markup (tooltipAbove etw shift cx topY t')
   \<and> (length rows = length rows' \<longrightarrow>
        markup (multiTooltipAbove etw shift cx topY t rows)
        = markup (multiTooltipAbove etw shift cx topY t' rows'))
   \<and> markup (tickLabelElement str shift (tick\<lparr>tick_label := t\<rparr>))
       = markup (tickLabelElement str shift (tick\<lparr>tick_label := t'\<rparr>))
   \<and> markup (axisTitleElement str shift (axisTitle\<lparr>at_text := t\<rparr>))
       = markup (axisTitleElement str shift (axisTitle\<lparr>at_text := t'\<rparr>))
   \<and> markup (chartTitleElement str shift (chartTitle\<lparr>ct_text := t\<rparr>))
       = markup (chartTitleElement str shift (chartTitle\<lparr>ct_text := t'\<rparr>))
   \<and> markup (legendLabelElement str shift (item\<lparr>li_label := t\<rparr>))
       = markup (legendLabelElement str shift (item\<lparr>li_label := t'\<rparr>))"
  by (intro conjI impI escapedText_escapeXml unescapeXml_escapeXml escapeXml_chars
      markup_escapeXml markup_dataAttrs markup_barPathElement markup_dotCircle
      markup_dotGroupSingle markup_dotGroupMulti markup_barOverlayGroup markup_tooltipAbove
      markup_multiTooltipAbove markup_tickLabelElement markup_axisTitleElement
      markup_chartTitleElement markup_legendLabelElement)


theorem escapeXml_guards_text_witness:
  \<open>truthy (Some ''5 < 6'') = truthy (Some ''six'')
   \<and> list_all2 relabelled [dotAt 1 2 (Some ''a>b'')] [dotAt 1 2 (Some ''ab'')]
   \<and> length [(''1'', ''A<'')] = length [(''1'', ''B'')]
   \<and> escapeXml ''5 < 6 & "7"'' = ''5 &lt; 6 &amp; &quot;7&quot;''
   \<and> escapedText (escapeXml ''5 < 6 & "7"'')
   \<and> unescapeXml (escapeXml ''5 < 6 & "7"'') = ''5 < 6 & "7"''
   \<and> dataAttrs r1 3 (Some ''5 < 6'') = '' data-value="3" data-label="5 &lt; 6"''
   \<and> markup (dataAttrs r1 3 (Some ''5 < 6'')) = markup (dataAttrs r1 3 (Some ''six''))
   \<and> markup (dataAttrs r1 3 (Some ''six'')) = (0, 0, 4)
   \<and> markup (dotGroupMulti r1 widthByLength ''0.35em'' []
         ((dotAt 1 1 None)\<lparr>de_label := Some ''5 < 6''\<rparr>) [dotAt 1 2 (Some ''a>b'')])
       = markup (dotGroupMulti r1 widthByLength ''0.35em'' []
         ((dotAt 1 1 None)\<lparr>de_label := Some ''six''\<rparr>) [dotAt 1 2 (Some ''ab'')])
   \<and> markup (multiTooltipAbove widthByLength ''0.35em'' 10 20 ''5 < 6 & "7"'' [(''1'', ''A<'')])
       = markup (multiTooltipAbove widthByLength ''0.35em'' 10 20 ''x'' [(''1'', ''B'')])\<close>
proof -
  have h: "truthy (Some ''5 < 6'') = truthy (Some ''six'')" by code_simp
  have r: "list_all2 relabelled [dotAt 1 2 (Some ''a>b'')] [dotAt 1 2 (Some ''ab'')]"
    by (simp add: relabelled_def dotAt_def truthy_def)
  have n: "length [(''1'', ''A<'')] = length [(''1'', ''B'')]" by simp
  have a: \<open>escapeXml ''5 < 6 & "7"'' = ''5 &lt; 6 &amp; &quot;7&quot;''\<close> by code_simp
  have d: \<open>dataAttrs r1 3 (Some ''5 < 6'') = '' data-value="3" data-label="5 &lt; 6"''\<close>
    by code_simp
  have m: "markup (dataAttrs r1 3 (Some ''six'')) = (0, 0, 4)" by code_simp
  note T = escapeXml_guards_text[where t = \<open>''5 < 6 & "7"''\<close> and t' = "''x''"
      and l = "Some ''5 < 6''" and l' = "Some ''six''" and str = r1 and v = 3
      and etw = widthByLength and shift = "''0.35em''" and legend = "[]" and legend' = "[]"
      and e = "dotAt 1 1 None" and es = "[dotAt 1 2 (Some ''a>b'')]"
      and es' = "[dotAt 1 2 (Some ''ab'')]" and cx = 10 and topY = 20
      and rows = "[(''1'', ''A<'')]" and rows' = "[(''1'', ''B'')]"]
  from T have e: \<open>escapedText (escapeXml ''5 < 6 & "7"'')\<close> by (rule conjunct1)
  from T have u: \<open>unescapeXml (escapeXml ''5 < 6 & "7"'') = ''5 < 6 & "7"''\<close> by blast
  from T h have i: "markup (dataAttrs r1 3 (Some ''5 < 6'')) = markup (dataAttrs r1 3 (Some ''six''))"
    by blast
  from T h r have g: "markup (dotGroupMulti r1 widthByLength ''0.35em'' []
         ((dotAt 1 1 None)\<lparr>de_label := Some ''5 < 6''\<rparr>) [dotAt 1 2 (Some ''a>b'')])
       = markup (dotGroupMulti r1 widthByLength ''0.35em'' []
         ((dotAt 1 1 None)\<lparr>de_label := Some ''six''\<rparr>) [dotAt 1 2 (Some ''ab'')])"
    by blast
  from T n have t: \<open>markup (multiTooltipAbove widthByLength ''0.35em'' 10 20 ''5 < 6 & "7"'' [(''1'', ''A<'')])
       = markup (multiTooltipAbove widthByLength ''0.35em'' 10 20 ''x'' [(''1'', ''B'')])\<close>
    by blast
  from h r n a e u d i m g t show ?thesis by blast
qed

end
